theory Spec2Isabelle
  imports Complex_Main "HOL-Library.Multiset"
begin

section \<open>Data model\<close>

text \<open>
  The storefront keeps its data in four collections of a hosted document store and in
  the local state of its page components. A JavaScript \<^verbatim>\<open>Date\<close> and a store
  \<^verbatim>\<open>Timestamp\<close> created by \<^verbatim>\<open>Timestamp.now()\<close> both denote an instant with
  millisecond precision; they are modelled as the number of milliseconds since the epoch.
  The amounts of the checkout are modelled as reals; the analytics page, which adds the
  totals of many orders, leaves the numbers and their addition open. Field names carry a short prefix naming their
  record (\<open>h_\<close> history entry, \<open>o_\<close> order, \<open>n_\<close> notification, \<open>u_\<close> user,
  \<open>t_\<close> verification token, \<open>f_\<close> checkout form), since the fields
  \<^verbatim>\<open>status\<close>, \<^verbatim>\<open>createdAt\<close>, \<^verbatim>\<open>email\<close> and \<^verbatim>\<open>id\<close> occur in several of them.
\<close>

type_synonym time = int

text \<open>\<^verbatim>\<open>StatusHistory\<close> of \<^verbatim>\<open>src/types/index.ts\<close>; \<^verbatim>\<open>updatedBy\<close> is optional.\<close>

record StatusHistory =
  h_status :: string
  h_timestamp :: time
  h_updatedBy :: "string option"

text \<open>An item of the cart store; the checkout reads three candidate id properties.\<close>

record CartItem =
  ci_productId :: "string option"
  ci_id :: "string option"
  ci_underscore_id :: "string option"
  ci_quantity :: real
  ci_price :: real

datatype payment_method = cod | gcash

text \<open>\<^verbatim>\<open>productIds\<close> of an order: a string if the cart holds one item, an array otherwise.\<close>

datatype product_ids = SingleId string | ManyIds "string list"

text \<open>
  A document of the \<^verbatim>\<open>orders\<close> collection, with the fields the checkout writes and
  the \<^verbatim>\<open>updatedAt\<close> field that a status update adds.
\<close>

record order_doc =
  o_userId :: string
  o_firstName :: string
  o_lastName :: string
  o_email :: string
  o_phone :: string
  o_address :: string
  o_city :: string
  o_zipCode :: string
  o_paymentMethod :: payment_method
  o_gcashNumber :: "string option"
  o_isDelivered :: bool
  o_validIdUrl :: "string option"
  o_productIds :: product_ids
  o_items :: "CartItem list"
  o_subtotal :: real
  o_shipping :: real
  o_total :: real
  o_status :: string
  o_createdAt :: time
  o_statusHistory :: "StatusHistory list option"
  o_updatedAt :: "time option"

text \<open>An order as a dashboard holds it: the document's data and the document id.\<close>

record Order = order_doc +
  o_id :: string

datatype notification_type = new_order | order_updated | order_cancelled

datatype recipient_role = admin | staff | both

record notification_metadata =
  m_customerName :: "string option"
  m_orderTotal :: "real option"
  m_paymentMethod :: "payment_method option"

text \<open>\<^verbatim>\<open>NotificationData\<close> of \<^verbatim>\<open>src/lib/notifications.ts\<close>.\<close>

record NotificationData =
  n_type :: notification_type
  n_orderId :: string
  n_message :: string
  n_recipientRole :: recipient_role
  n_read :: bool
  n_createdAt :: time
  n_metadata :: "notification_metadata option"

datatype user_role = role_user | role_admin | role_staff

text \<open>A document of the \<^verbatim>\<open>users\<close> collection, as the registration writes it.\<close>

record user_doc =
  u_id :: string
  u_email :: string
  u_name :: string
  u_phone :: string
  u_role :: user_role
  u_emailVerified :: "bool option"
  u_createdAt :: time
  u_verifiedAt :: "time option"

text \<open>A document of the \<^verbatim>\<open>verificationTokens\<close> collection; the token is its key.\<close>

record token_doc =
  t_userId :: string
  t_email :: string
  t_createdAt :: time
  t_expiresAt :: time

text \<open>The signed-in user of the auth store, as far as the pages read it.\<close>

record auth_user =
  au_id :: string
  au_email :: string

section \<open>The document store\<close>

text \<open>
  Every call to the store is a request that the backend fulfils or rejects (network,
  permissions). The reply to each call is an input of the model; each request is also
  recorded in \<open>requests\<close>, in the order in which the code issues it. A rejected write
  leaves the collections as they were.
\<close>

datatype request =
    GetDoc string string
  | AddDoc string
  | SetDoc string string
  | UpdateDoc string string
  | DeleteDoc string string

record firestore =
  orders :: "string \<rightharpoonup> order_doc"
  notifications :: "string \<rightharpoonup> NotificationData"
  users :: "string \<rightharpoonup> user_doc"
  verificationTokens :: "string \<rightharpoonup> token_doc"
  requests :: "request list"

definition logged :: "request \<Rightarrow> firestore \<Rightarrow> firestore" where
  "logged r fs = fs\<lparr>requests := requests fs @ [r]\<rparr>"

text \<open>
  \<^verbatim>\<open>updateDoc\<close> changes fields of an existing document and fails when the document
  does not exist; the result is \<open>True\<close> when the promise is fulfilled.
\<close>

definition updateDoc_orders ::
  "bool \<Rightarrow> string \<Rightarrow> (order_doc \<Rightarrow> order_doc) \<Rightarrow> firestore \<Rightarrow> bool \<times> firestore" where
  "updateDoc_orders reply k f fs =
     (case orders fs k of
        None \<Rightarrow> (False, logged (UpdateDoc ''orders'' k) fs)
      | Some d \<Rightarrow>
          if reply
          then (True, logged (UpdateDoc ''orders'' k) (fs\<lparr>orders := (orders fs)(k \<mapsto> f d)\<rparr>))
          else (False, logged (UpdateDoc ''orders'' k) fs))"

definition updateDoc_users ::
  "bool \<Rightarrow> string \<Rightarrow> (user_doc \<Rightarrow> user_doc) \<Rightarrow> firestore \<Rightarrow> bool \<times> firestore" where
  "updateDoc_users reply k f fs =
     (case users fs k of
        None \<Rightarrow> (False, logged (UpdateDoc ''users'' k) fs)
      | Some d \<Rightarrow>
          if reply
          then (True, logged (UpdateDoc ''users'' k) (fs\<lparr>users := (users fs)(k \<mapsto> f d)\<rparr>))
          else (False, logged (UpdateDoc ''users'' k) fs))"

text \<open>
  \<^verbatim>\<open>addDoc\<close> stores a document under an id the store generates; the reply is
  \<open>None\<close> when the promise is rejected and the generated id otherwise.
\<close>

definition addDoc_orders ::
  "string option \<Rightarrow> order_doc \<Rightarrow> firestore \<Rightarrow> string option \<times> firestore" where
  "addDoc_orders reply d fs =
     (case reply of
        None \<Rightarrow> (None, logged (AddDoc ''orders'') fs)
      | Some newId \<Rightarrow>
          (Some newId, logged (AddDoc ''orders'') (fs\<lparr>orders := (orders fs)(newId \<mapsto> d)\<rparr>)))"

definition addDoc_notifications ::
  "string option \<Rightarrow> NotificationData \<Rightarrow> firestore \<Rightarrow> string option \<times> firestore" where
  "addDoc_notifications reply d fs =
     (case reply of
        None \<Rightarrow> (None, logged (AddDoc ''notifications'') fs)
      | Some newId \<Rightarrow>
          (Some newId,
           logged (AddDoc ''notifications'') (fs\<lparr>notifications := (notifications fs)(newId \<mapsto> d)\<rparr>)))"

text \<open>\<^verbatim>\<open>setDoc\<close> creates or overwrites the document with the given key.\<close>

definition setDoc_users :: "bool \<Rightarrow> string \<Rightarrow> user_doc \<Rightarrow> firestore \<Rightarrow> bool \<times> firestore" where
  "setDoc_users reply k d fs =
     (if reply
      then (True, logged (SetDoc ''users'' k) (fs\<lparr>users := (users fs)(k \<mapsto> d)\<rparr>))
      else (False, logged (SetDoc ''users'' k) fs))"

definition setDoc_verificationTokens ::
  "bool \<Rightarrow> string \<Rightarrow> token_doc \<Rightarrow> firestore \<Rightarrow> bool \<times> firestore" where
  "setDoc_verificationTokens reply k d fs =
     (if reply
      then (True, logged (SetDoc ''verificationTokens'' k)
                    (fs\<lparr>verificationTokens := (verificationTokens fs)(k \<mapsto> d)\<rparr>))
      else (False, logged (SetDoc ''verificationTokens'' k) fs))"

text \<open>
  \<^verbatim>\<open>getDoc\<close> returns a snapshot: \<open>None\<close> when the promise is rejected,
  \<open>Some None\<close> for a snapshot of a document that does not exist.
\<close>

definition getDoc_verificationTokens ::
  "bool \<Rightarrow> string \<Rightarrow> firestore \<Rightarrow> token_doc option option \<times> firestore" where
  "getDoc_verificationTokens reply k fs =
     (if reply
      then (Some (verificationTokens fs k), logged (GetDoc ''verificationTokens'' k) fs)
      else (None, logged (GetDoc ''verificationTokens'' k) fs))"

text \<open>\<^verbatim>\<open>deleteDoc\<close> removes the document with the given key, if there is one.\<close>

definition deleteDoc_verificationTokens :: "bool \<Rightarrow> string \<Rightarrow> firestore \<Rightarrow> bool \<times> firestore" where
  "deleteDoc_verificationTokens reply k fs =
     (if reply
      then (True, logged (DeleteDoc ''verificationTokens'' k)
                    (fs\<lparr>verificationTokens := (verificationTokens fs)(k := None)\<rparr>))
      else (False, logged (DeleteDoc ''verificationTokens'' k) fs))"

section \<open>Staff dashboard: updating the status of an order\<close>

text \<open>
  The dashboard's React state (the loaded orders) and the toasts it has shown. The
  orders are loaded once, when the page is mounted.
\<close>

record dashboard =
  d_orders :: "Order list"
  d_toasts :: "string list"

text \<open>
  What one call of \<^verbatim>\<open>updateOrderStatus\<close> reads from its environment: the signed-in
  user, the three clock readings in the order of the code (\<^verbatim>\<open>Timestamp.now()\<close> of the
  history entry, \<^verbatim>\<open>Timestamp.now()\<close> of \<^verbatim>\<open>updatedAt\<close>, \<^verbatim>\<open>new Date()\<close> of the
  local copy) and the backend's reply to the write.
\<close>

record update_env =
  e_user :: "auth_user option"
  e_entryNow :: time
  e_updatedNow :: time
  e_localNow :: time
  e_updateReply :: bool

text \<open>\<^verbatim>\<open>user?.email || 'staff'\<close>\<close>

definition updatedBy_of :: "auth_user option \<Rightarrow> string" where
  "updatedBy_of user =
     (case user of
        None \<Rightarrow> ''staff''
      | Some u \<Rightarrow> if au_email u = [] then ''staff'' else au_email u)"

definition newHistoryEntry :: "update_env \<Rightarrow> string \<Rightarrow> StatusHistory" where
  "newHistoryEntry env newStatus =
     \<lparr>h_status = newStatus, h_timestamp = e_entryNow env,
      h_updatedBy = Some (updatedBy_of (e_user env))\<rparr>"

text \<open>\<^verbatim>\<open>order.statusHistory || []\<close>\<close>

definition existingHistory :: "StatusHistory list option \<Rightarrow> StatusHistory list" where
  "existingHistory h = (case h of None \<Rightarrow> [] | Some hs \<Rightarrow> hs)"

definition updateOrderStatus ::
  "update_env \<Rightarrow> string \<Rightarrow> string \<Rightarrow> dashboard \<times> firestore \<Rightarrow> dashboard \<times> firestore" where
  "updateOrderStatus env orderId newStatus st =
     (case st of (ui, fs) \<Rightarrow>
       (case find (\<lambda>x. o_id x = orderId) (d_orders ui) of
          None \<Rightarrow> (ui, fs)
        | Some order \<Rightarrow>
            let updatedHistory =
                  existingHistory (o_statusHistory order) @ [newHistoryEntry env newStatus]
            in (case updateDoc_orders (e_updateReply env) orderId
                       (\<lambda>d. d\<lparr>o_status := newStatus,
                                o_updatedAt := Some (e_updatedNow env),
                                o_statusHistory := Some updatedHistory\<rparr>) fs of
                  (True, fs') \<Rightarrow>
                    (ui\<lparr>d_orders :=
                          map (\<lambda>x. if o_id x = orderId
                                    then x\<lparr>o_status := newStatus,
                                           o_updatedAt := Some (e_localNow env),
                                           o_statusHistory := Some updatedHistory\<rparr>
                                    else x) (d_orders ui),
                        d_toasts := d_toasts ui @ [''Order status updated to '' @ newStatus]\<rparr>,
                     fs')
                | (False, fs') \<Rightarrow>
                    (ui\<lparr>d_toasts := d_toasts ui @ [''Failed to update order status'']\<rparr>, fs'))))"

text \<open>The five statuses the dashboard's select offers.\<close>

definition orderStatuses :: "string list" where
  "orderStatuses = [''pending'', ''processing'', ''shipped'', ''delivered'', ''cancelled'']"

section \<open>Email verification page\<close>

datatype verify_status = loading | success | error

text \<open>
  The page's state: status and message, the toasts shown, and the route of the redirect
  that a successful verification schedules.
\<close>

record verify_page =
  v_status :: verify_status
  v_message :: string
  v_toasts :: "string list"
  v_redirect :: "string option"

text \<open>
  What one run of \<^verbatim>\<open>verifyEmail\<close> reads from its environment: the backend's replies
  to \<^verbatim>\<open>getDoc\<close>, \<^verbatim>\<open>updateDoc\<close> and \<^verbatim>\<open>deleteDoc\<close> (each run issues at most one
  \<^verbatim>\<open>deleteDoc\<close>) and the two clock readings: \<^verbatim>\<open>new Date()\<close> of the expiry check
  and \<^verbatim>\<open>new Date()\<close> of \<^verbatim>\<open>verifiedAt\<close>.
\<close>

record verify_env =
  ve_getReply :: bool
  ve_now :: time
  ve_updateReply :: bool
  ve_verifiedAt :: time
  ve_deleteReply :: bool

text \<open>The \<^verbatim>\<open>catch\<close> block of \<^verbatim>\<open>verifyEmail\<close>.\<close>

definition verify_caught :: "verify_page \<Rightarrow> verify_page" where
  "verify_caught p =
     p\<lparr>v_status := error,
       v_message := ''An error occurred while verifying your email. Please try again or contact support.''\<rparr>"

definition verifyEmail ::
  "verify_env \<Rightarrow> string option \<Rightarrow> verify_page \<times> firestore \<Rightarrow> verify_page \<times> firestore" where
  "verifyEmail env token st =
     (case st of (p, fs) \<Rightarrow>
       (if token = None \<or> token = Some []
        then (p\<lparr>v_status := error,
                v_message := ''Invalid verification link. No token provided.''\<rparr>, fs)
        else
          (case getDoc_verificationTokens (ve_getReply env) (the token) fs of
             (None, fs1) \<Rightarrow> (verify_caught p, fs1)
           | (Some None, fs1) \<Rightarrow>
               (p\<lparr>v_status := error, v_message := ''Invalid or expired verification link.''\<rparr>, fs1)
           | (Some (Some tokenData), fs1) \<Rightarrow>
               if ve_now env > t_expiresAt tokenData
               then
                 (let p1 = p\<lparr>v_status := error,
                             v_message := ''Verification link has expired. Please register again or request a new verification email.''\<rparr>
                  in case deleteDoc_verificationTokens (ve_deleteReply env) (the token) fs1 of
                       (True, fs2) \<Rightarrow> (p1, fs2)
                     | (False, fs2) \<Rightarrow> (verify_caught p1, fs2))
               else
                 (case updateDoc_users (ve_updateReply env) (t_userId tokenData)
                         (\<lambda>u. u\<lparr>u_emailVerified := Some True,
                                  u_verifiedAt := Some (ve_verifiedAt env)\<rparr>) fs1 of
                    (False, fs2) \<Rightarrow> (verify_caught p, fs2)
                  | (True, fs2) \<Rightarrow>
                      (case deleteDoc_verificationTokens (ve_deleteReply env) (the token) fs2 of
                         (False, fs3) \<Rightarrow> (verify_caught p, fs3)
                       | (True, fs3) \<Rightarrow>
                           (p\<lparr>v_status := success,
                              v_message := ''Email verified successfully! You can now log in to your account.'',
                              v_toasts := v_toasts p @ [''Email verified! Redirecting to login...''],
                              v_redirect := Some ''/login''\<rparr>, fs3))))))"

section \<open>Dates in local time\<close>

text \<open>
  \<^verbatim>\<open>Date.prototype.getHours\<close> and \<^verbatim>\<open>setHours\<close> work on the local time of the
  browser. They are modelled after the ECMAScript definitions: a time zone is the function
  \<open>LocalTZA\<close>, which gives the offset of local time from UTC in milliseconds, for a UTC
  instant (second argument \<open>True\<close>) or for a local time (second argument \<open>False\<close>).
  The range check \<^verbatim>\<open>TimeClip\<close> is left out: the clock readings of this program are far
  inside the range of a \<^verbatim>\<open>Date\<close>.
\<close>

type_synonym time_zone = "time \<Rightarrow> bool \<Rightarrow> int"

definition msPerDay :: int where "msPerDay = 86400000"
definition msPerHour :: int where "msPerHour = 3600000"
definition msPerMinute :: int where "msPerMinute = 60000"
definition msPerSecond :: int where "msPerSecond = 1000"

definition Day :: "time \<Rightarrow> int" where "Day t = t div msPerDay"
definition HourFromTime :: "time \<Rightarrow> int" where "HourFromTime t = (t div msPerHour) mod 24"
definition MinFromTime :: "time \<Rightarrow> int" where "MinFromTime t = (t div msPerMinute) mod 60"
definition SecFromTime :: "time \<Rightarrow> int" where "SecFromTime t = (t div msPerSecond) mod 60"
definition msFromTime :: "time \<Rightarrow> int" where "msFromTime t = t mod msPerSecond"

definition MakeTime :: "int \<Rightarrow> int \<Rightarrow> int \<Rightarrow> int \<Rightarrow> int" where
  "MakeTime hour minute sec ms = hour * msPerHour + minute * msPerMinute + sec * msPerSecond + ms"

definition MakeDate :: "int \<Rightarrow> int \<Rightarrow> time" where
  "MakeDate day tm = day * msPerDay + tm"

definition LocalTime :: "time_zone \<Rightarrow> time \<Rightarrow> time" where
  "LocalTime tz t = t + tz t True"

definition UTC :: "time_zone \<Rightarrow> time \<Rightarrow> time" where
  "UTC tz t = t - tz t False"

definition getHours :: "time_zone \<Rightarrow> time \<Rightarrow> int" where
  "getHours tz t = HourFromTime (LocalTime tz t)"

definition setHours :: "time_zone \<Rightarrow> time \<Rightarrow> int \<Rightarrow> time" where
  "setHours tz t hour =
     (let lt = LocalTime tz t;
          date = MakeDate (Day lt) (MakeTime hour (MinFromTime lt) (SecFromTime lt) (msFromTime lt))
      in UTC tz date)"

section \<open>Registration\<close>

text \<open>The decimal numeral of a clock reading, as a template literal renders it.\<close>

fun decimal :: "nat \<Rightarrow> string" where
  "decimal n =
     (if n < 10 then [''0123456789'' ! n]
      else decimal (n div 10) @ [''0123456789'' ! (n mod 10)])"

definition number_string :: "int \<Rightarrow> string" where
  "number_string i = (if i < 0 then ''-'' @ decimal (nat (- i)) else decimal (nat i))"

record registration_form =
  rf_username :: string
  rf_email :: string
  rf_phone :: string
  rf_password :: string
  rf_confirmPassword :: string

text \<open>
  An error thrown by a call, as far as the \<^verbatim>\<open>catch\<close> block inspects it: the code
  \<^verbatim>\<open>auth/email-already-in-use\<close>, an error of the mail service (it has a \<^verbatim>\<open>text\<close>),
  or any other error with its message.
\<close>

datatype js_error = EmailAlreadyInUse | MailServiceError | OtherError string

record verification_email =
  em_to_email :: string
  em_from_email :: string
  em_user_name :: string
  em_verification_link :: string

record registration_page =
  r_error :: string
  r_loading :: bool
  r_toasts :: "string list"
  r_navigated :: "string option"
  r_emails :: "verification_email list"

text \<open>
  What one run of \<^verbatim>\<open>handleRegister\<close> reads from its environment, in the order of
  the code: the reply of the authentication service (an error or the new user's uid), the
  replies of the later calls (\<open>None\<close> when fulfilled), the clock readings, the random
  suffix of the token, the time zone of the browser and the origin of the page.
\<close>

record registration_env =
  rg_createUser :: "js_error + string"
  rg_updateProfile :: "js_error option"
  rg_userCreatedAt :: time
  rg_setUser :: "js_error option"
  rg_dateNow :: time
  rg_random :: string
  rg_expiresBase :: time
  rg_zone :: time_zone
  rg_tokenCreatedAt :: time
  rg_setToken :: "js_error option"
  rg_origin :: string
  rg_emailSend :: "js_error option"
  rg_signOut :: "js_error option"

text \<open>The \<^verbatim>\<open>catch\<close> and \<^verbatim>\<open>finally\<close> blocks of \<^verbatim>\<open>handleRegister\<close>.\<close>

definition register_caught :: "js_error \<Rightarrow> registration_page \<Rightarrow> registration_page" where
  "register_caught err p =
     p\<lparr>r_error :=
          (case err of
             EmailAlreadyInUse \<Rightarrow> ''This email is already registered. Please login instead.''
           | MailServiceError \<Rightarrow> ''Failed to send verification email. Please contact support.''
           | OtherError msg \<Rightarrow> if msg = [] then ''Failed to register'' else msg),
       r_loading := False\<rparr>"

text \<open>Steps 4 and 5 of \<^verbatim>\<open>handleRegister\<close>: the token and its expiry.\<close>

definition make_token :: "registration_env \<Rightarrow> string \<Rightarrow> string" where
  "make_token env uid = uid @ ''_'' @ number_string (rg_dateNow env) @ ''_'' @ rg_random env"

definition make_expiresAt :: "registration_env \<Rightarrow> time" where
  "make_expiresAt env =
     setHours (rg_zone env) (rg_expiresBase env) (getHours (rg_zone env) (rg_expiresBase env) + 24)"

definition startsWith :: "string \<Rightarrow> string \<Rightarrow> bool" where
  "startsWith s pre = (take (length pre) s = pre)"

definition handleRegister ::
  "registration_env \<Rightarrow> registration_form \<Rightarrow> registration_page \<times> firestore \<Rightarrow>
   registration_page \<times> firestore" where
  "handleRegister env formData st =
     (case st of (p0, fs) \<Rightarrow>
       (let p = p0\<lparr>r_error := []\<rparr> in
        if rf_password formData \<noteq> rf_confirmPassword formData
        then (p\<lparr>r_error := ''Passwords do not match''\<rparr>, fs)
        else if length (rf_password formData) < 6
        then (p\<lparr>r_error := ''Password should be at least 6 characters long''\<rparr>, fs)
        else if \<not> startsWith (rf_phone formData) ''+63'' \<or> length (rf_phone formData) \<noteq> 13
        then (p\<lparr>r_error := ''Please enter a valid Philippine phone number (+63XXXXXXXXXX)''\<rparr>, fs)
        else
          (case rg_createUser env of
             Inl err \<Rightarrow> (register_caught err p, fs)
           | Inr uid \<Rightarrow>
               (case rg_updateProfile env of
                  Some err \<Rightarrow> (register_caught err p, fs)
                | None \<Rightarrow>
                    (case setDoc_users (rg_setUser env = None) uid
                            \<lparr>u_id = uid, u_email = rf_email formData, u_name = rf_username formData,
                             u_phone = rf_phone formData, u_role = role_user,
                             u_emailVerified = Some False, u_createdAt = rg_userCreatedAt env,
                             u_verifiedAt = None\<rparr> fs of
                       (False, fs1) \<Rightarrow> (register_caught (the (rg_setUser env)) p, fs1)
                     | (True, fs1) \<Rightarrow>
                         (let token = make_token env uid;
                              expiresAt = make_expiresAt env
                          in case setDoc_verificationTokens (rg_setToken env = None) token
                                    \<lparr>t_userId = uid, t_email = rf_email formData,
                                     t_createdAt = rg_tokenCreatedAt env,
                                     t_expiresAt = expiresAt\<rparr> fs1 of
                               (False, fs2) \<Rightarrow> (register_caught (the (rg_setToken env)) p, fs2)
                             | (True, fs2) \<Rightarrow>
                                 (let verificationLink =
                                        rg_origin env @ ''/verify-email?token='' @ token;
                                      emailParams =
                                        \<lparr>em_to_email = rf_email formData,
                                         em_from_email = ''noreply@gdsbudgetarian.com'',
                                         em_user_name = rf_username formData,
                                         em_verification_link = verificationLink\<rparr>
                                  in case rg_emailSend env of
                                       Some err \<Rightarrow> (register_caught err p, fs2)
                                     | None \<Rightarrow>
                                         (case rg_signOut env of
                                            Some err \<Rightarrow>
                                              (register_caught err
                                                 (p\<lparr>r_emails := r_emails p @ [emailParams]\<rparr>), fs2)
                                          | None \<Rightarrow>
                                              (p\<lparr>r_emails := r_emails p @ [emailParams],
                                                 r_toasts := r_toasts p @
                                                   [''Registration successful! Please check your email to verify your account.''],
                                                 r_error := [],
                                                 r_navigated := Some ''/login'',
                                                 r_loading := False\<rparr>, fs2)))))))))"

section \<open>Notifications\<close>

text \<open>
  Strings of form input are modelled as strings of ASCII characters; the white space of
  \<^verbatim>\<open>trim\<close> and of the regular expressions' \<^verbatim>\<open>\s\<close> is the ASCII white space.
\<close>

definition is_space :: "char \<Rightarrow> bool" where
  "is_space c = (c \<in> set [CHR 0x09, CHR 0x0A, CHR 0x0B, CHR 0x0C, CHR 0x0D, CHR 0x20])"

definition trim :: "string \<Rightarrow> string" where
  "trim s = rev (dropWhile is_space (rev (dropWhile is_space s)))"

text \<open>
  The text between the customer's name and the amount in the message of a notification:
  \<open>'' - ''\<close> and the three characters of the source's literal, in UTF-8.
\<close>

definition message_separator :: string where
  "message_separator =
     '' - '' @ [CHR 0xC3, CHR 0xA2, CHR 0xE2, CHR 0x80, CHR 0x9A, CHR 0xC2, CHR 0xB1]"

text \<open>
  What \<^verbatim>\<open>createNewOrderNotification\<close> reads from its environment: the rendering of
  a number with two decimals (\<^verbatim>\<open>toFixed(2)\<close>, not modelled further), the clock reading
  of \<^verbatim>\<open>createdAt\<close> and the backend's reply to the \<^verbatim>\<open>addDoc\<close>.
\<close>

record notify_env =
  ne_toFixed2 :: "real \<Rightarrow> string"
  ne_now :: time
  ne_addReply :: "string option"

text \<open>The notification object that \<^verbatim>\<open>createNewOrderNotification\<close> builds.\<close>

definition newOrderNotification :: "notify_env \<Rightarrow> string \<Rightarrow> order_doc \<Rightarrow> NotificationData" where
  "newOrderNotification env orderId orderData =
     (let trimmed = trim (o_firstName orderData @ '' '' @ o_lastName orderData);
          customerName = (if trimmed = [] then ''Customer'' else trimmed);
          total = (if o_total orderData = 0 then 0 else o_total orderData)
      in \<lparr>n_type = new_order,
          n_orderId = orderId,
          n_message = ''New order from '' @ customerName @ message_separator @ ne_toFixed2 env total,
          n_recipientRole = both,
          n_read = False,
          n_createdAt = ne_now env,
          n_metadata = Some \<lparr>m_customerName = Some customerName,
                              m_orderTotal = Some total,
                              m_paymentMethod = Some (o_paymentMethod orderData)\<rparr>\<rparr>)"

text \<open>
  \<^verbatim>\<open>createNewOrderNotification\<close>. The first component of the result tells whether the
  promise it returns is fulfilled; the second is what it wrote to the console.
\<close>

definition createNewOrderNotification ::
  "notify_env \<Rightarrow> string \<Rightarrow> order_doc \<Rightarrow> firestore \<Rightarrow> (bool \<times> string list) \<times> firestore" where
  "createNewOrderNotification env orderId orderData fs =
     (case addDoc_notifications (ne_addReply env) (newOrderNotification env orderId orderData) fs of
        (Some newId, fs') \<Rightarrow> ((True, [''Notification created successfully'']), fs')
      | (None, fs') \<Rightarrow> ((True, [''Error creating notification:'']), fs'))"

section \<open>Checkout\<close>

record FormData =
  f_userId :: string
  f_firstName :: string
  f_lastName :: string
  f_email :: string
  f_phone :: string
  f_address :: string
  f_city :: string
  f_zipCode :: string
  f_paymentMethod :: payment_method
  f_gcashNumber :: "string option"
  f_isDelivered :: bool
  f_validIdUrl :: "string option"

text \<open>An optional string is falsy when it is absent or empty.\<close>

definition falsy :: "string option \<Rightarrow> bool" where
  "falsy s = (s = None \<or> s = Some [])"

definition is_digit :: "char \<Rightarrow> bool" where
  "is_digit c = (c \<in> set ''0123456789'')"

text \<open>\<^verbatim>\<open>/^[^\s@]+@[^\s@]+\.[^\s@]+$/\<close>\<close>

definition validateEmail :: "string \<Rightarrow> bool" where
  "validateEmail email =
     (let name = takeWhile (\<lambda>c. c \<noteq> CHR ''@'') email;
          rest = dropWhile (\<lambda>c. c \<noteq> CHR ''@'') email
      in name \<noteq> [] \<and> list_all (\<lambda>c. \<not> is_space c) name \<and> rest \<noteq> []
         \<and> list_all (\<lambda>c. \<not> is_space c \<and> c \<noteq> CHR ''@'') (tl rest)
         \<and> CHR ''.'' \<in> set (tl (butlast (tl rest))))"

text \<open>
  The characters that the class \<^verbatim>\<open>[^\s@]\<close> of that regular expression admits.
\<close>

definition email_char :: "char \<Rightarrow> bool" where
  "email_char c = (\<not> is_space c \<and> c \<noteq> CHR ''@'')"

text \<open>\<^verbatim>\<open>/^09\d{9}$/\<close>\<close>

definition validatePhone :: "string \<Rightarrow> bool" where
  "validatePhone phone =
     (length phone = 11 \<and> take 2 phone = ''09'' \<and> list_all is_digit (drop 2 phone))"

definition validateGCash :: "string \<Rightarrow> bool" where
  "validateGCash number =
     (length number = 11 \<and> take 2 number = ''09'' \<and> list_all is_digit (drop 2 number))"

text \<open>
  \<^verbatim>\<open>validate\<close> returns the object of errors, here the list of its entries
  (field and message) in the order in which the code adds them.
\<close>

definition validate :: "FormData \<Rightarrow> (string \<times> string) list" where
  "validate formData =
     (if f_firstName formData = [] then [(''firstName'', ''First name is required'')] else [])
   @ (if f_lastName formData = [] then [(''lastName'', ''Last name is required'')] else [])
   @ (if f_email formData = [] then [(''email'', ''Email is required'')]
      else if \<not> validateEmail (f_email formData) then [(''email'', ''Invalid email address'')]
      else [])
   @ (if f_phone formData = [] then [(''phone'', ''Phone number is required'')]
      else if \<not> validatePhone (f_phone formData)
      then [(''phone'', ''Invalid phone (must be 11 digits, start with 09)'')]
      else [])
   @ (if f_address formData = [] then [(''address'', ''Address is required'')] else [])
   @ (if f_city formData = [] then [(''city'', ''City is required'')] else [])
   @ (if f_zipCode formData = [] then [(''zipCode'', ''ZIP Code is required'')] else [])
   @ (if f_paymentMethod formData = gcash
      then (if falsy (f_gcashNumber formData)
            then [(''gcashNumber'', ''GCash number is required'')]
            else if \<not> validateGCash (the (f_gcashNumber formData))
            then [(''gcashNumber'', ''Invalid GCash number (must be 11 digits, start with 09)'')]
            else [])
      else [])
   @ (if f_paymentMethod formData = cod \<and> falsy (f_validIdUrl formData)
      then [(''validId'', ''Valid ID is required for Cash on Delivery'')]
      else [])"

text \<open>
  The checkout page: the errors shown, the \<^verbatim>\<open>submitting\<close> flag, the toasts, the
  route navigated to, and the items of the cart store.
\<close>

record checkout_page =
  c_errors :: "(string \<times> string) list"
  c_submitting :: bool
  c_toasts :: "string list"
  c_navigated :: "string option"
  c_cart :: "CartItem list"

text \<open>
  What one run of \<^verbatim>\<open>handleSubmit\<close> reads from its environment: the signed-in user,
  the total passed by the cart page (if it is a number), the two clock readings of the
  order, the backend's reply to the \<^verbatim>\<open>addDoc\<close> of the order, and the environment of
  the notification.
\<close>

record checkout_env =
  ce_user :: "auth_user option"
  ce_passedTotal :: "real option"
  ce_createdNow :: time
  ce_historyNow :: time
  ce_orderReply :: "string option"
  ce_notify :: notify_env

text \<open>\<^verbatim>\<open>item.productId || item.id || item._id || ''\<close>\<close>

definition item_product_id :: "CartItem \<Rightarrow> string" where
  "item_product_id item =
     (if \<not> falsy (ci_productId item) then the (ci_productId item)
      else if \<not> falsy (ci_id item) then the (ci_id item)
      else if \<not> falsy (ci_underscore_id item) then the (ci_underscore_id item)
      else [])"

definition cart_subtotal :: "CartItem list \<Rightarrow> real" where
  "cart_subtotal items = foldl (\<lambda>sum item. sum + ci_price item * ci_quantity item) 0 items"

definition shipping :: real where
  "shipping = 99"

definition cart_total :: "real option \<Rightarrow> CartItem list \<Rightarrow> real" where
  "cart_total passedTotal items =
     (case passedTotal of Some t \<Rightarrow> t | None \<Rightarrow> cart_subtotal items + shipping)"

text \<open>
  The order document that \<^verbatim>\<open>handleSubmit\<close> builds. The spread of the form stores
  \<^verbatim>\<open>validIdUrl\<close> whatever the payment method; the later assignment for cash on
  delivery stores the same value again.
\<close>

definition orderData_of :: "checkout_env \<Rightarrow> FormData \<Rightarrow> CartItem list \<Rightarrow> order_doc" where
  "orderData_of env formData cartItems =
     (let productIds = (if cartItems \<noteq> [] then map item_product_id cartItems else [])
      in \<lparr>o_userId = (case ce_user env of
                         None \<Rightarrow> []
                       | Some u \<Rightarrow> au_id u),
          o_firstName = f_firstName formData,
          o_lastName = f_lastName formData,
          o_email = f_email formData,
          o_phone = f_phone formData,
          o_address = f_address formData,
          o_city = f_city formData,
          o_zipCode = f_zipCode formData,
          o_paymentMethod = f_paymentMethod formData,
          o_gcashNumber = f_gcashNumber formData,
          o_isDelivered = False,
          o_validIdUrl = f_validIdUrl formData,
          o_productIds =
            (if length productIds = 1 then SingleId (hd productIds) else ManyIds productIds),
          o_items = cartItems,
          o_subtotal = cart_subtotal cartItems,
          o_shipping = shipping,
          o_total = cart_total (ce_passedTotal env) cartItems,
          o_status = ''pending'',
          o_createdAt = ce_createdNow env,
          o_statusHistory =
            Some [\<lparr>h_status = ''pending'', h_timestamp = ce_historyNow env,
                    h_updatedBy = Some ''system''\<rparr>],
          o_updatedAt = None\<rparr>)"

definition handleSubmit ::
  "checkout_env \<Rightarrow> FormData \<Rightarrow> checkout_page \<times> firestore \<Rightarrow> checkout_page \<times> firestore" where
  "handleSubmit env formData st =
     (case st of (p0, fs) \<Rightarrow>
       (let foundErrors = validate formData;
            p = p0\<lparr>c_errors := foundErrors\<rparr>
        in if length foundErrors > 0
           then (p\<lparr>c_toasts := c_toasts p @ [''Please fix the errors in the form.'']\<rparr>, fs)
           else
             (let orderData = orderData_of env formData (c_cart p)
              in case addDoc_orders (ce_orderReply env) orderData fs of
                   (None, fs1) \<Rightarrow>
                     (p\<lparr>c_toasts := c_toasts p @ [''Failed to place order. Please try again.''],
                        c_submitting := False\<rparr>, fs1)
                 | (Some docId, fs1) \<Rightarrow>
                     (case createNewOrderNotification (ce_notify env) docId orderData fs1 of
                        ((False, out), fs2) \<Rightarrow>
                          (p\<lparr>c_toasts := c_toasts p @ [''Failed to place order. Please try again.''],
                             c_submitting := False\<rparr>, fs2)
                      | ((True, out), fs2) \<Rightarrow>
                          (p\<lparr>c_cart := [],
                             c_toasts := c_toasts p @ [''Order placed successfully!''],
                             c_navigated := Some ''/'',
                             c_submitting := False\<rparr>, fs2)))))"

section \<open>Analytics\<close>

text \<open>
  The analytics page adds the totals of the orders as JavaScript numbers, that is IEEE
  doubles, whose addition is not associative. The model leaves the type of numbers and
  their addition open: \<open>js_plus\<close> is \<^verbatim>\<open>+\<close> on numbers and \<open>js_zero\<close> is the
  literal \<^verbatim>\<open>0\<close>. No property below uses a law of addition.
\<close>

record 'n number_ops =
  js_plus :: "'n \<Rightarrow> 'n \<Rightarrow> 'n"
  js_zero :: 'n

text \<open>
  The page reads the raw data of the order documents and inspects its shape.
  \<^verbatim>\<open>createdAt\<close> is an object with a numeric \<^verbatim>\<open>seconds\<close> property (a store
  timestamp), another truthy value, of which \<^verbatim>\<open>new Date\<close> makes a date (\<open>None\<close>
  stands for an invalid date), or a falsy value. \<^verbatim>\<open>total\<close> is a number or not
  (\<open>None\<close>).
\<close>

datatype created_at = SecondsObject int | OtherValue "time option" | FalsyValue

record 'n analytics_order =
  a_id :: string
  a_total :: "'n option"
  a_createdAt :: created_at

text \<open>
  \<^verbatim>\<open>getMonth\<close> and \<^verbatim>\<open>getFullYear\<close> of a valid date, in the local time of the
  browser. The calendar is a parameter of the model.
\<close>

record calendar =
  cal_getMonth :: "time \<Rightarrow> int"
  cal_getFullYear :: "time \<Rightarrow> int"

text \<open>
  The statistics of the page, as far as the aggregation of orders sets them. A revenue
  that is not the sum of numbers (\<^verbatim>\<open>NaN\<close> or a string, after a total that is not a
  number was added without a check) is \<open>None\<close>.
\<close>

record 'n stats =
  st_totalRevenue :: "'n option"
  st_totalOrders :: nat
  st_totalCustomers :: nat
  st_totalProducts :: nat

text \<open>
  The state of the page: the two selections (\<open>None\<close> is \<^verbatim>\<open>'all'\<close>, otherwise the
  number that the selected option denotes), the fetched orders and the statistics.
\<close>

record 'n analytics_page =
  ap_filterMonth :: "int option"
  ap_filterYear :: "int option"
  ap_allOrders :: "'n analytics_order list"
  ap_stats :: "'n stats"

text \<open>The \<^verbatim>\<open>date\<close> that the page computes from an order: \<open>None\<close> is \<^verbatim>\<open>null\<close>.\<close>

definition order_date :: "'n analytics_order \<Rightarrow> time option option" where
  "order_date order =
     (case a_createdAt order of
        SecondsObject seconds \<Rightarrow> Some (Some (seconds * 1000))
      | OtherValue d \<Rightarrow> Some d
      | FalsyValue \<Rightarrow> None)"

text \<open>
  The callback of \<^verbatim>\<open>allOrders.filter\<close>. The month and the year of an invalid date
  are \<^verbatim>\<open>NaN\<close>, which equals no number.
\<close>

definition filter_callback ::
  "calendar \<Rightarrow> int option \<Rightarrow> int option \<Rightarrow> 'n analytics_order \<Rightarrow> bool" where
  "filter_callback cal filterMonth filterYear order =
     (case order_date order of
        None \<Rightarrow> False
      | Some date \<Rightarrow>
          (let m = map_option (cal_getMonth cal) date;
               y = map_option (cal_getFullYear cal) date
           in (filterMonth = None \<or> (m \<noteq> None \<and> m = filterMonth))
              \<and> (filterYear = None \<or> (y \<noteq> None \<and> y = filterYear))))"

definition filtered_orders ::
  "calendar \<Rightarrow> int option \<Rightarrow> int option \<Rightarrow> 'n analytics_order list \<Rightarrow> 'n analytics_order list" where
  "filtered_orders cal filterMonth filterYear allOrders =
     (if filterMonth \<noteq> None \<or> filterYear \<noteq> None
      then filter (filter_callback cal filterMonth filterYear) allOrders
      else allOrders)"

text \<open>
  The body of the effect that updates the statistics when a filter or the orders change:
  \<^verbatim>\<open>reduce\<close> adds from the left, starting from \<^verbatim>\<open>0\<close>, and a total that is not a
  number counts as \<^verbatim>\<open>0\<close>.
\<close>

definition update_stats ::
  "'n number_ops \<Rightarrow> calendar \<Rightarrow> int option \<Rightarrow> int option \<Rightarrow> 'n analytics_order list \<Rightarrow>
   'n stats \<Rightarrow> 'n stats" where
  "update_stats ops cal filterMonth filterYear allOrders s =
     (if length allOrders = 0 then s
      else
        (let filtered = filtered_orders cal filterMonth filterYear allOrders
         in s\<lparr>st_totalRevenue :=
                Some (foldl (\<lambda>sum order.
                               js_plus ops sum
                                 (case a_total order of Some t \<Rightarrow> t | None \<Rightarrow> js_zero ops))
                        (js_zero ops) filtered),
              st_totalOrders := length filtered\<rparr>))"

definition run_effect :: "'n number_ops \<Rightarrow> calendar \<Rightarrow> 'n analytics_page \<Rightarrow> 'n analytics_page" where
  "run_effect ops cal page =
     page\<lparr>ap_stats := update_stats ops cal (ap_filterMonth page) (ap_filterYear page)
                         (ap_allOrders page) (ap_stats page)\<rparr>"

text \<open>
  Selecting a month or a year sets the state; the effect runs when the value has
  changed.
\<close>

definition setFilterMonth ::
  "'n number_ops \<Rightarrow> calendar \<Rightarrow> int option \<Rightarrow> 'n analytics_page \<Rightarrow> 'n analytics_page" where
  "setFilterMonth ops cal m page =
     (if m = ap_filterMonth page then page
      else run_effect ops cal (page\<lparr>ap_filterMonth := m\<rparr>))"

definition setFilterYear ::
  "'n number_ops \<Rightarrow> calendar \<Rightarrow> int option \<Rightarrow> 'n analytics_page \<Rightarrow> 'n analytics_page" where
  "setFilterYear ops cal y page =
     (if y = ap_filterYear page then page
      else run_effect ops cal (page\<lparr>ap_filterYear := y\<rparr>))"

datatype user_event = SelectMonth "int option" | SelectYear "int option"

definition user_event ::
  "'n number_ops \<Rightarrow> calendar \<Rightarrow> 'n analytics_page \<Rightarrow> user_event \<Rightarrow> 'n analytics_page" where
  "user_event ops cal page ev =
     (case ev of
        SelectMonth m \<Rightarrow> setFilterMonth ops cal m page
      | SelectYear y \<Rightarrow> setFilterYear ops cal y page)"

text \<open>
  \<^verbatim>\<open>setAllOrders(orders)\<close> in \<^verbatim>\<open>fetchAnalytics\<close>: the state holds the fetched array
  and the effect runs.
\<close>

definition orders_fetched ::
  "'n number_ops \<Rightarrow> calendar \<Rightarrow> 'n analytics_order list \<Rightarrow> 'n analytics_page \<Rightarrow> 'n analytics_page" where
  "orders_fetched ops cal orders' page = run_effect ops cal (page\<lparr>ap_allOrders := orders'\<rparr>)"

text \<open>
  The revenue that \<^verbatim>\<open>fetchAnalytics\<close> computes, in the order of the fetched array and
  without a check of the type of \<^verbatim>\<open>total\<close>.
\<close>

definition fetched_totalRevenue :: "'n number_ops \<Rightarrow> 'n analytics_order list \<Rightarrow> 'n option" where
  "fetched_totalRevenue ops orders' =
     foldl (\<lambda>sum order.
              case sum of
                None \<Rightarrow> None
              | Some s \<Rightarrow> (case a_total order of None \<Rightarrow> None | Some t \<Rightarrow> Some (js_plus ops s t)))
       (Some (js_zero ops)) orders'"

definition fetched_stats ::
  "'n number_ops \<Rightarrow> 'n analytics_order list \<Rightarrow> nat \<Rightarrow> nat \<Rightarrow> 'n stats" where
  "fetched_stats ops orders' totalCustomers totalProducts =
     \<lparr>st_totalRevenue = fetched_totalRevenue ops orders',
      st_totalOrders = length orders',
      st_totalCustomers = totalCustomers,
      st_totalProducts = totalProducts\<rparr>"

text \<open>
  The sort for the recent orders, \<^verbatim>\<open>(dateB?.getTime() || 0) - (dateA?.getTime() || 0)\<close>:
  a stable sort, latest first, where an order without a valid date counts as time 0. It
  sorts the fetched array in place, and the state holds that array.
\<close>

definition order_time :: "'n analytics_order \<Rightarrow> time" where
  "order_time order = (case order_date order of Some (Some t) \<Rightarrow> t | _ \<Rightarrow> 0)"

definition recent_first :: "'n analytics_order list \<Rightarrow> 'n analytics_order list" where
  "recent_first orders' = sort_key (\<lambda>order. - order_time order) orders'"

definition fetch_completed ::
  "'n number_ops \<Rightarrow> 'n analytics_order list \<Rightarrow> nat \<Rightarrow> nat \<Rightarrow> 'n analytics_page \<Rightarrow>
   'n analytics_page" where
  "fetch_completed ops orders' totalCustomers totalProducts page =
     page\<lparr>ap_allOrders := recent_first orders',
          ap_stats := fetched_stats ops orders' totalCustomers totalProducts\<rparr>"

text \<open>
  \<^verbatim>\<open>fetchAnalytics\<close>. Its inputs are the reply to the fetch of the orders (\<open>None\<close>
  when rejected), the selections that the user makes while the fetches of the users and
  the products are under way, and the reply to these two fetches (\<open>None\<close> when one is
  rejected, otherwise the number of customers and of products). A rejected fetch is
  caught and logged, and the state stays as it is.
\<close>

definition fetchAnalytics ::
  "'n number_ops \<Rightarrow> calendar \<Rightarrow> 'n analytics_order list option \<Rightarrow> user_event list \<Rightarrow>
   (nat \<times> nat) option \<Rightarrow> 'n analytics_page \<Rightarrow> 'n analytics_page" where
  "fetchAnalytics ops cal ordersReply during restReply page =
     (case ordersReply of
        None \<Rightarrow> page
      | Some orders' \<Rightarrow>
          (let page1 = orders_fetched ops cal orders' page;
               page2 = foldl (user_event ops cal) page1 during
           in case restReply of
                None \<Rightarrow> page2
              | Some (totalCustomers, totalProducts) \<Rightarrow>
                  fetch_completed ops orders' totalCustomers totalProducts page2))"

subsection \<open>The aggregation in the words of the claim\<close>





text \<open>The sum of a list of numbers, added in the order of the list, starting from 0.\<close>

primrec sum_from :: "'n number_ops \<Rightarrow> 'n \<Rightarrow> 'n list \<Rightarrow> 'n" where
  "sum_from ops acc [] = acc"
| "sum_from ops acc (x # xs) = sum_from ops (js_plus ops acc x) xs"

definition sum_in_order :: "'n number_ops \<Rightarrow> 'n list \<Rightarrow> 'n" where
  "sum_in_order ops xs = sum_from ops (js_zero ops) xs"


section \<open>Observations and example data\<close>

text \<open>The status history of an order as stored, and as a dashboard holds it.\<close>

definition storedHistory :: "firestore \<Rightarrow> string \<Rightarrow> StatusHistory list" where
  "storedHistory fs k =
     (case orders fs k of None \<Rightarrow> [] | Some d \<Rightarrow> existingHistory (o_statusHistory d))"

definition loadedHistory :: "dashboard \<Rightarrow> string \<Rightarrow> StatusHistory list" where
  "loadedHistory ui k =
     (case find (\<lambda>x. o_id x = k) (d_orders ui) of
        None \<Rightarrow> []
      | Some x \<Rightarrow> existingHistory (o_statusHistory x))"

text \<open>
  The conversion of a stored document into a dashboard order, as the callback of
  \<^verbatim>\<open>fetchOrders\<close> performs it: the id is added, a missing \<^verbatim>\<open>updatedAt\<close> becomes the
  time of loading and a missing history becomes the empty one.
\<close>

definition fetchedOrder :: "time \<Rightarrow> string \<Rightarrow> order_doc \<Rightarrow> Order" where
  "fetchedOrder now k d =
     \<lparr>o_userId = o_userId d, o_firstName = o_firstName d, o_lastName = o_lastName d,
      o_email = o_email d, o_phone = o_phone d, o_address = o_address d, o_city = o_city d,
      o_zipCode = o_zipCode d, o_paymentMethod = o_paymentMethod d,
      o_gcashNumber = o_gcashNumber d, o_isDelivered = o_isDelivered d,
      o_validIdUrl = o_validIdUrl d, o_productIds = o_productIds d, o_items = o_items d,
      o_subtotal = o_subtotal d, o_shipping = o_shipping d, o_total = o_total d,
      o_status = o_status d, o_createdAt = o_createdAt d,
      o_statusHistory = Some (existingHistory (o_statusHistory d)),
      o_updatedAt = Some (case o_updatedAt d of None \<Rightarrow> now | Some t \<Rightarrow> t),
      o_id = k\<rparr>"

text \<open>An order as a checkout of one item stores it, used in the examples below.\<close>

definition demo_entry :: "string \<Rightarrow> time \<Rightarrow> string \<Rightarrow> StatusHistory" where
  "demo_entry s t who = \<lparr>h_status = s, h_timestamp = t, h_updatedBy = Some who\<rparr>"

definition demo_doc :: order_doc where
  "demo_doc =
     \<lparr>o_userId = ''u1'', o_firstName = ''Ana'', o_lastName = ''Cruz'',
      o_email = ''ana@x.ph'', o_phone = ''09171234567'', o_address = ''1 Rizal St'',
      o_city = ''Cebu'', o_zipCode = ''6000'', o_paymentMethod = gcash,
      o_gcashNumber = Some ''09171234567'', o_isDelivered = False,
      o_validIdUrl = Some [], o_productIds = SingleId ''p1'',
      o_items = [\<lparr>ci_productId = Some ''p1'', ci_id = None, ci_underscore_id = None,
                  ci_quantity = 2, ci_price = 50\<rparr>],
      o_subtotal = 100, o_shipping = 99, o_total = 199,
      o_status = ''pending'', o_createdAt = 1000,
      o_statusHistory = Some [demo_entry ''pending'' 1000 ''system''],
      o_updatedAt = None\<rparr>"

definition demo_store :: firestore where
  "demo_store =
     \<lparr>orders = [''o1'' \<mapsto> demo_doc], notifications = Map.empty, users = Map.empty,
      verificationTokens = Map.empty, requests = []\<rparr>"

definition demo_dashboard :: dashboard where
  "demo_dashboard = \<lparr>d_orders = [fetchedOrder 2000 ''o1'' demo_doc], d_toasts = []\<rparr>"

definition demo_env :: update_env where
  "demo_env =
     \<lparr>e_user = Some \<lparr>au_id = ''s1'', au_email = ''staff@x.ph''\<rparr>,
      e_entryNow = 3000, e_updatedNow = 3001, e_localNow = 3002, e_updateReply = True\<rparr>"

text \<open>
  The store after another dashboard has moved the order to \<^verbatim>\<open>processing\<close>, while
  \<open>demo_dashboard\<close> still holds the copy it loaded before.
\<close>

definition demo_store_later :: firestore where
  "demo_store_later =
     snd (updateOrderStatus
            (demo_env\<lparr>e_user := Some \<lparr>au_id = ''a1'', au_email = ''admin@x.ph''\<rparr>,
                       e_entryNow := 2500, e_updatedNow := 2501, e_localNow := 2502\<rparr>)
            ''o1'' ''processing'' (demo_dashboard, demo_store))"

text \<open>
  A registered, unverified user with a verification token that expires at 90000000, next
  to a token of another registration that expired long ago.
\<close>

definition demo_user :: user_doc where
  "demo_user =
     \<lparr>u_id = ''u1'', u_email = ''ana@x.ph'', u_name = ''ana'', u_phone = ''+639171234567'',
      u_role = role_user, u_emailVerified = Some False, u_createdAt = 3600000,
      u_verifiedAt = None\<rparr>"

definition demo_token :: token_doc where
  "demo_token =
     \<lparr>t_userId = ''u1'', t_email = ''ana@x.ph'', t_createdAt = 3600000,
      t_expiresAt = 90000000\<rparr>"

definition demo_page :: verify_page where
  "demo_page =
     \<lparr>v_status = loading, v_message = ''Verifying your email...'', v_toasts = [],
      v_redirect = None\<rparr>"

definition demo_verify_store :: firestore where
  "demo_verify_store =
     \<lparr>orders = Map.empty, notifications = Map.empty, users = [''u1'' \<mapsto> demo_user],
      verificationTokens = [''tk'' \<mapsto> demo_token, ''old'' \<mapsto> demo_token\<lparr>t_expiresAt := 5000\<rparr>],
      requests = []\<rparr>"

definition demo_verify_env :: "time \<Rightarrow> verify_env" where
  "demo_verify_env now =
     \<lparr>ve_getReply = True, ve_now = now, ve_updateReply = True, ve_verifiedAt = now + 1,
      ve_deleteReply = True\<rparr>"

text \<open>
  Two time zones. Philippine time is eight hours ahead of UTC throughout. US Eastern
  time, around the start of daylight saving time on 8 March 2026 (at 07:00 UTC, which is
  02:00 local standard time), is five hours behind UTC before the change and four hours
  behind after it. The local times from 02:00 to 03:00 of that day are skipped; ECMAScript
  reads them with the offset before the change.
\<close>

definition zone_manila :: time_zone where
  "zone_manila t isUTC = 8 * msPerHour"

definition zone_new_york_2026 :: time_zone where
  "zone_new_york_2026 t isUTC =
     (if isUTC
      then (if t < 1772953200000 then - 5 * msPerHour else - 4 * msPerHour)
      else (if t < 1772953200000 - 4 * msPerHour then - 5 * msPerHour else - 4 * msPerHour))"

definition demo_form :: registration_form where
  "demo_form =
     \<lparr>rf_username = ''ana'', rf_email = ''ana@x.ph'', rf_phone = ''+639171234567'',
      rf_password = ''secret1'', rf_confirmPassword = ''secret1''\<rparr>"

text \<open>A registration at 17:00 UTC on 7 March 2026, every call fulfilled.\<close>

definition demo_reg_env :: "time_zone \<Rightarrow> registration_env" where
  "demo_reg_env tz =
     \<lparr>rg_createUser = Inr ''u1'', rg_updateProfile = None,
      rg_userCreatedAt = 1772902800000, rg_setUser = None,
      rg_dateNow = 1772902800000, rg_random = ''k3x9'',
      rg_expiresBase = 1772902800000, rg_zone = tz,
      rg_tokenCreatedAt = 1772902800000, rg_setToken = None,
      rg_origin = ''https://gds.ph'', rg_emailSend = None, rg_signOut = None\<rparr>"

definition demo_reg_page :: registration_page where
  "demo_reg_page =
     \<lparr>r_error = [], r_loading = False, r_toasts = [], r_navigated = None, r_emails = []\<rparr>"

definition empty_store :: firestore where
  "empty_store =
     \<lparr>orders = Map.empty, notifications = Map.empty, users = Map.empty,
      verificationTokens = Map.empty, requests = []\<rparr>"

text \<open>A checkout of one item, paid with GCash, by the signed-in user \<open>u1\<close>.\<close>

definition demo_checkout_form :: FormData where
  "demo_checkout_form =
     \<lparr>f_userId = ''u1'', f_firstName = ''Ana'', f_lastName = ''Cruz'',
      f_email = ''ana@x.ph'', f_phone = ''09171234567'', f_address = ''1 Rizal St'',
      f_city = ''Cebu'', f_zipCode = ''6000'', f_paymentMethod = gcash,
      f_gcashNumber = Some ''09171234567'', f_isDelivered = False, f_validIdUrl = Some []\<rparr>"

definition demo_checkout_page :: checkout_page where
  "demo_checkout_page =
     \<lparr>c_errors = [], c_submitting = False, c_toasts = [], c_navigated = None,
      c_cart = [\<lparr>ci_productId = Some ''p1'', ci_id = None, ci_underscore_id = None,
                 ci_quantity = 2, ci_price = 50\<rparr>]\<rparr>"

definition demo_checkout_env :: "string option \<Rightarrow> checkout_env" where
  "demo_checkout_env notifyReply =
     \<lparr>ce_user = Some \<lparr>au_id = ''u1'', au_email = ''ana@x.ph''\<rparr>,
      ce_passedTotal = Some 199, ce_createdNow = 1000, ce_historyNow = 1000,
      ce_orderReply = Some ''o1'',
      ce_notify = \<lparr>ne_toFixed2 = (\<lambda>x. ''199.00''), ne_now = 1001, ne_addReply = notifyReply\<rparr>\<rparr>"

text \<open>
  Six fetched orders: store timestamps of 15 January 2026, 20 February 2026 and
  10 February 2025 (UTC), a date of 2 February 2026 that is not a store timestamp, an
  order without \<^verbatim>\<open>createdAt\<close> and one with an invalid date. The calendar knows these
  dates. Numbers are integers with their addition.
\<close>

definition demo_orders :: "int analytics_order list" where
  "demo_orders =
     [\<lparr>a_id = ''o1'', a_total = Some 199, a_createdAt = SecondsObject 1768435200\<rparr>,
      \<lparr>a_id = ''o2'', a_total = Some 350, a_createdAt = SecondsObject 1771545600\<rparr>,
      \<lparr>a_id = ''o3'', a_total = Some 120, a_createdAt = SecondsObject 1739145600\<rparr>,
      \<lparr>a_id = ''o4'', a_total = Some 60, a_createdAt = OtherValue (Some 1769990400000)\<rparr>,
      \<lparr>a_id = ''o5'', a_total = Some 80, a_createdAt = FalsyValue\<rparr>,
      \<lparr>a_id = ''o6'', a_total = Some 40, a_createdAt = OtherValue None\<rparr>]"

definition demo_calendar :: calendar where
  "demo_calendar =
     \<lparr>cal_getMonth = (\<lambda>t. if t = 1768435200000 then 0 else 1),
      cal_getFullYear = (\<lambda>t. if t = 1739145600000 then 2025 else 2026)\<rparr>"

definition int_ops :: "int number_ops" where
  "int_ops = \<lparr>js_plus = (+), js_zero = 0\<rparr>"

text \<open>The page when it is mounted.\<close>

definition demo_analytics_page :: "int analytics_page" where
  "demo_analytics_page =
     \<lparr>ap_filterMonth = None, ap_filterYear = None, ap_allOrders = [],
      ap_stats = \<lparr>st_totalRevenue = Some 0, st_totalOrders = 0, st_totalCustomers = 0,
                  st_totalProducts = 0\<rparr>\<rparr>"

section \<open>Stores that the application produces\<close>

text \<open>
  The stores that the pages can produce from the empty store. The four modelled
  operations are steps of their own. The writes of the other pages are covered by two
  coarser steps: a page sets or changes one user document (the authentication provider
  creates a missing one, the role management changes the role of an existing one), and a
  page changes orders or notifications (deleting an order, marking it received, marking
  a notification read). No page deletes a user document, and only the registration and
  the verification write verification tokens.
\<close>

inductive reachable :: "firestore \<Rightarrow> bool" where
  initial: "reachable empty_store"
| registered: "reachable fs \<Longrightarrow> reachable (snd (handleRegister env formData (p, fs)))"
| verified: "reachable fs \<Longrightarrow> reachable (snd (verifyEmail env token (p, fs)))"
| ordered: "reachable fs \<Longrightarrow> reachable (snd (handleSubmit env formData (p, fs)))"
| status_updated:
    "reachable fs \<Longrightarrow> reachable (snd (updateOrderStatus env orderId newStatus (ui, fs)))"
| user_written: "reachable fs \<Longrightarrow> reachable (fs\<lparr>users := (users fs)(k \<mapsto> d)\<rparr>)"
| orders_written:
    "reachable fs \<Longrightarrow> reachable (fs\<lparr>orders := os, notifications := ns, requests := rs\<rparr>)"

text \<open>The invariant of these stores: every verification token names a stored user.\<close>

definition tokens_have_users :: "firestore \<Rightarrow> bool" where
  "tokens_have_users fs =
     (\<forall>k td. verificationTokens fs k = Some td \<longrightarrow> users fs (t_userId td) \<noteq> None)"

section \<open>Properties of the staff dashboard\<close>

lemmas demo_defs =
  demo_store_later_def demo_dashboard_def demo_store_def fetchedOrder_def demo_doc_def
  demo_env_def demo_entry_def

lemmas update_defs =
  updateOrderStatus_def updateDoc_orders_def logged_def existingHistory_def
  newHistoryEntry_def updatedBy_of_def storedHistory_def loadedHistory_def Let_def

lemma updateOrderStatus_fulfilled:
  assumes "find (\<lambda>x. o_id x = orderId) (d_orders ui) = Some order"
      and "orders fs orderId = Some d"
      and "e_updateReply env"
  shows "updateOrderStatus env orderId newStatus (ui, fs) =
     (ui\<lparr>d_orders :=
           map (\<lambda>x. if o_id x = orderId
                     then x\<lparr>o_status := newStatus,
                            o_updatedAt := Some (e_localNow env),
                            o_statusHistory := Some (existingHistory (o_statusHistory order) @ [newHistoryEntry env newStatus])\<rparr>
                     else x) (d_orders ui),
         d_toasts := d_toasts ui @ [''Order status updated to '' @ newStatus]\<rparr>,
      logged (UpdateDoc ''orders'' orderId)
        (fs\<lparr>orders := (orders fs)(orderId \<mapsto>
               d\<lparr>o_status := newStatus,
                  o_updatedAt := Some (e_updatedNow env),
                  o_statusHistory := Some (existingHistory (o_statusHistory order) @ [newHistoryEntry env newStatus])\<rparr>)\<rparr>))"
  using assms by (simp add: updateOrderStatus_def updateDoc_orders_def Let_def)

lemma find_map_update:
  assumes "\<And>x. o_id (g x) = o_id x"
      and "find (\<lambda>x. o_id x = k) xs = Some y"
  shows "find (\<lambda>x. o_id x = k) (map (\<lambda>x. if o_id x = k then g x else x) xs) = Some (g y)"
  using assms by (induction xs) (auto split: if_splits)

lemma updateOrderStatus_stored:
  assumes "find (\<lambda>x. o_id x = orderId) (d_orders ui) = Some order"
      and "orders fs orderId = Some d"
      and "e_updateReply env"
  shows "orders (snd (updateOrderStatus env orderId newStatus (ui, fs))) orderId =
           Some (d\<lparr>o_status := newStatus,
                  o_updatedAt := Some (e_updatedNow env),
                  o_statusHistory := Some (loadedHistory ui orderId @ [newHistoryEntry env newStatus])\<rparr>)"
  using assms by (simp add: updateOrderStatus_fulfilled logged_def loadedHistory_def)

lemma updateOrderStatus_loaded:
  assumes "find (\<lambda>x. o_id x = orderId) (d_orders ui) = Some order"
      and "orders fs orderId = Some d"
      and "e_updateReply env"
  shows "find (\<lambda>x. o_id x = orderId) (d_orders (fst (updateOrderStatus env orderId newStatus (ui, fs)))) =
           Some (order\<lparr>o_status := newStatus,
                  o_updatedAt := Some (e_localNow env),
                  o_statusHistory := Some (loadedHistory ui orderId @ [newHistoryEntry env newStatus])\<rparr>)"
proof -
  let ?g = "\<lambda>x::Order. x\<lparr>o_status := newStatus,
                  o_updatedAt := Some (e_localNow env),
                  o_statusHistory := Some (existingHistory (o_statusHistory order) @ [newHistoryEntry env newStatus])\<rparr>"
  have "find (\<lambda>x. o_id x = orderId) (map (\<lambda>x. if o_id x = orderId then ?g x else x) (d_orders ui)) = Some (?g order)"
    by (rule find_map_update) (simp_all add: assms(1))
  then show ?thesis
    using assms by (simp add: updateOrderStatus_fulfilled loadedHistory_def)
qed

subsection \<open>C1: the status history after an update\<close>

text \<open>
  Claim C1, as amended. When the order is in the dashboard's loaded list, its document
  exists and the backend fulfils the write, one call of \<^verbatim>\<open>updateOrderStatus\<close> makes
  the stored \<^verbatim>\<open>statusHistory\<close>, and the dashboard's copy of it, equal to the history
  the dashboard had loaded followed by exactly one new entry
  \<open>{status, timestamp, updatedBy}\<close>. Hence, when the loaded history equals the stored
  one, the stored history after the update is the stored history before it with that
  entry appended at the end, and every entry recorded before is unchanged.
\<close>

theorem updateOrderStatus_appends_to_loaded_history:
  assumes "find (\<lambda>x. o_id x = orderId) (d_orders ui) = Some order"
      and "orders fs orderId = Some d"
      and "e_updateReply env"
  shows "storedHistory (snd (updateOrderStatus env orderId newStatus (ui, fs))) orderId =
           loadedHistory ui orderId @ [newHistoryEntry env newStatus]
       \<and> loadedHistory (fst (updateOrderStatus env orderId newStatus (ui, fs))) orderId =
           loadedHistory ui orderId @ [newHistoryEntry env newStatus]
       \<and> (storedHistory fs orderId = loadedHistory ui orderId \<longrightarrow>
            storedHistory (snd (updateOrderStatus env orderId newStatus (ui, fs))) orderId =
              storedHistory fs orderId @ [newHistoryEntry env newStatus]
          \<and> take (length (storedHistory fs orderId))
                (storedHistory (snd (updateOrderStatus env orderId newStatus (ui, fs))) orderId) =
              storedHistory fs orderId)"
proof -
  have s: "storedHistory (snd (updateOrderStatus env orderId newStatus (ui, fs))) orderId =
           loadedHistory ui orderId @ [newHistoryEntry env newStatus]"
    using updateOrderStatus_stored [OF assms, of newStatus]
    by (simp add: storedHistory_def existingHistory_def)
  have l: "loadedHistory (fst (updateOrderStatus env orderId newStatus (ui, fs))) orderId =
           loadedHistory ui orderId @ [newHistoryEntry env newStatus]"
    using updateOrderStatus_loaded [OF assms, of newStatus]
    by (simp add: loadedHistory_def existingHistory_def)
  show ?thesis using s l by simp
qed

text \<open>
  The hypotheses hold for the dashboard that has just loaded the order: the stored
  history grows from the checkout's entry to two entries.
\<close>

theorem updateOrderStatus_appends_witness:
  "storedHistory (snd (updateOrderStatus demo_env ''o1'' ''processing'' (demo_dashboard, demo_store))) ''o1'' =
     [demo_entry ''pending'' 1000 ''system'', demo_entry ''processing'' 3000 ''staff@x.ph'']
   \<and> storedHistory demo_store ''o1'' = loadedHistory demo_dashboard ''o1''"
proof -
  have a: "find (\<lambda>x. o_id x = ''o1'') (d_orders demo_dashboard) = Some (fetchedOrder 2000 ''o1'' demo_doc)"
    by (simp add: demo_defs)
  have b: "orders demo_store ''o1'' = Some demo_doc" by (simp add: demo_defs)
  have c: "e_updateReply demo_env" by (simp add: demo_defs)
  have d: "loadedHistory demo_dashboard ''o1'' = [demo_entry ''pending'' 1000 ''system'']"
    by (simp add: demo_defs loadedHistory_def existingHistory_def)
  have e: "storedHistory demo_store ''o1'' = [demo_entry ''pending'' 1000 ''system'']"
    by (simp add: demo_defs storedHistory_def existingHistory_def)
  have f: "newHistoryEntry demo_env ''processing'' = demo_entry ''processing'' 3000 ''staff@x.ph''"
    by (simp add: demo_defs newHistoryEntry_def updatedBy_of_def)
  show ?thesis
    using updateOrderStatus_appends_to_loaded_history [OF a b c, of "''processing''"] d e f
    by simp
qed

lemma demo_store_later_history:
  "storedHistory demo_store_later ''o1'' =
     [demo_entry ''pending'' 1000 ''system'', demo_entry ''processing'' 2500 ''admin@x.ph'']"
  by (simp add: demo_defs update_defs)

lemma demo_store_later_orders:
  "orders demo_store_later ''o1'' = Some (demo_doc\<lparr>o_status := ''processing'', o_updatedAt := Some 2501,
      o_statusHistory := Some [demo_entry ''pending'' 1000 ''system'', demo_entry ''processing'' 2500 ''admin@x.ph'']\<rparr>)"
  by (simp add: demo_defs update_defs)

text \<open>
  Claim C1 as stated fails for a dashboard whose copy is older than the stored document.
  Another dashboard has recorded \<^verbatim>\<open>processing\<close>; this dashboard, which loaded the
  order before that, then records \<^verbatim>\<open>shipped\<close>. The write replaces the stored array
  by the loaded history plus the new entry, so the stored history afterwards is not the
  previous stored history with one entry appended: the \<^verbatim>\<open>processing\<close> entry is gone.
\<close>

theorem updateOrderStatus_stale_copy_drops_entry:
  "storedHistory demo_store_later ''o1'' =
     [demo_entry ''pending'' 1000 ''system'', demo_entry ''processing'' 2500 ''admin@x.ph'']
   \<and> storedHistory (snd (updateOrderStatus demo_env ''o1'' ''shipped'' (demo_dashboard, demo_store_later))) ''o1'' =
     [demo_entry ''pending'' 1000 ''system'', demo_entry ''shipped'' 3000 ''staff@x.ph'']
   \<and> storedHistory (snd (updateOrderStatus demo_env ''o1'' ''shipped'' (demo_dashboard, demo_store_later))) ''o1'' \<noteq>
     storedHistory demo_store_later ''o1'' @ [newHistoryEntry demo_env ''shipped'']"
proof -
  have a: "find (\<lambda>x. o_id x = ''o1'') (d_orders demo_dashboard) = Some (fetchedOrder 2000 ''o1'' demo_doc)"
    by (simp add: demo_defs)
  have c: "e_updateReply demo_env" by (simp add: demo_defs)
  have d: "loadedHistory demo_dashboard ''o1'' = [demo_entry ''pending'' 1000 ''system'']"
    by (simp add: demo_defs loadedHistory_def existingHistory_def)
  have f: "newHistoryEntry demo_env ''shipped'' = demo_entry ''shipped'' 3000 ''staff@x.ph''"
    by (simp add: demo_defs newHistoryEntry_def updatedBy_of_def)
  have "storedHistory (snd (updateOrderStatus demo_env ''o1'' ''shipped'' (demo_dashboard, demo_store_later))) ''o1'' =
     [demo_entry ''pending'' 1000 ''system'', demo_entry ''shipped'' 3000 ''staff@x.ph'']"
    using updateOrderStatus_stored [OF a demo_store_later_orders c, of "''shipped''"] d f
    by (simp add: storedHistory_def existingHistory_def)
  then show ?thesis
    by (simp add: demo_store_later_history)
qed


subsection \<open>C2: no ordering of status transitions\<close>

text \<open>
  Claim C2. For every current status and every target status among \<^verbatim>\<open>pending\<close>,
  \<^verbatim>\<open>processing\<close>, \<^verbatim>\<open>shipped\<close>, \<^verbatim>\<open>delivered\<close> and \<^verbatim>\<open>cancelled\<close>, an update
  of a loaded, stored order to the target status that the backend fulfils is accepted: the
  stored status and the dashboard's copy become the target status and the success toast is
  shown. Nothing in \<^verbatim>\<open>updateOrderStatus\<close> compares the current status with the target.
\<close>

theorem updateOrderStatus_any_transition:
  assumes "cur \<in> set orderStatuses"
      and "tgt \<in> set orderStatuses"
      and "find (\<lambda>x. o_id x = orderId) (d_orders ui) = Some order"
      and "o_status order = cur"
      and "orders fs orderId = Some d"
      and "o_status d = cur"
      and "e_updateReply env"
  shows "map_option o_status (orders (snd (updateOrderStatus env orderId tgt (ui, fs))) orderId) = Some tgt
       \<and> map_option o_status
            (find (\<lambda>x. o_id x = orderId) (d_orders (fst (updateOrderStatus env orderId tgt (ui, fs))))) = Some tgt
       \<and> d_toasts (fst (updateOrderStatus env orderId tgt (ui, fs))) =
            d_toasts ui @ [''Order status updated to '' @ tgt]"
proof -
  have s: "map_option o_status (orders (snd (updateOrderStatus env orderId tgt (ui, fs))) orderId) = Some tgt"
    using updateOrderStatus_stored [OF assms(3) assms(5) assms(7), of tgt] by simp
  have l: "map_option o_status
            (find (\<lambda>x. o_id x = orderId) (d_orders (fst (updateOrderStatus env orderId tgt (ui, fs))))) = Some tgt"
    using updateOrderStatus_loaded [OF assms(3) assms(5) assms(7), of tgt] by simp
  have t: "d_toasts (fst (updateOrderStatus env orderId tgt (ui, fs))) =
            d_toasts ui @ [''Order status updated to '' @ tgt]"
    using assms(3,5,7) by (simp add: updateOrderStatus_fulfilled)
  show ?thesis using s l t by simp
qed

text \<open>
  The hypotheses hold for an order that is already \<^verbatim>\<open>delivered\<close> and is set back to
  \<^verbatim>\<open>pending\<close>.
\<close>

theorem updateOrderStatus_any_transition_witness:
  "''delivered'' \<in> set orderStatuses \<and> ''pending'' \<in> set orderStatuses
   \<and> map_option o_status
        (orders (snd (updateOrderStatus demo_env ''o1'' ''pending''
                       (\<lparr>d_orders = [fetchedOrder 2000 ''o1'' (demo_doc\<lparr>o_status := ''delivered''\<rparr>)],
                         d_toasts = []\<rparr>,
                        demo_store\<lparr>orders := [''o1'' \<mapsto> demo_doc\<lparr>o_status := ''delivered''\<rparr>]\<rparr>)))
           ''o1'') = Some ''pending''"
proof -
  let ?ui = "\<lparr>d_orders = [fetchedOrder 2000 ''o1'' (demo_doc\<lparr>o_status := ''delivered''\<rparr>)],
              d_toasts = []\<rparr>"
  let ?fs = "demo_store\<lparr>orders := [''o1'' \<mapsto> demo_doc\<lparr>o_status := ''delivered''\<rparr>]\<rparr>"
  have a: "''delivered'' \<in> set orderStatuses" by (simp add: orderStatuses_def)
  have b: "''pending'' \<in> set orderStatuses" by (simp add: orderStatuses_def)
  have c: "find (\<lambda>x. o_id x = ''o1'') (d_orders ?ui) =
             Some (fetchedOrder 2000 ''o1'' (demo_doc\<lparr>o_status := ''delivered''\<rparr>))"
    by (simp add: fetchedOrder_def)
  have d: "o_status (fetchedOrder 2000 ''o1'' (demo_doc\<lparr>o_status := ''delivered''\<rparr>)) = ''delivered''"
    by (simp add: fetchedOrder_def)
  have e: "orders ?fs ''o1'' = Some (demo_doc\<lparr>o_status := ''delivered''\<rparr>)" by simp
  have f: "o_status (demo_doc\<lparr>o_status := ''delivered''\<rparr>) = ''delivered''" by simp
  have g: "e_updateReply demo_env" by (simp add: demo_env_def)
  show ?thesis
    using updateOrderStatus_any_transition [OF a b c d e f g] a b by simp
qed

subsection \<open>C3: what a status update writes\<close>

text \<open>
  Claim C3, as amended. A status update never creates a notification document: the
  \<^verbatim>\<open>notifications\<close> collection is left as it was, and the only request the update
  issues, if any, is the \<^verbatim>\<open>updateDoc\<close> of the order. When the order is loaded and
  stored and the backend fulfils the write, the update appends one entry to the order's
  \<^verbatim>\<open>statusHistory\<close> array (the loaded history followed by the new entry).
\<close>

theorem updateOrderStatus_creates_no_notification:
  "notifications (snd (updateOrderStatus env orderId newStatus (ui, fs))) = notifications fs
   \<and> (requests (snd (updateOrderStatus env orderId newStatus (ui, fs))) = requests fs
      \<or> requests (snd (updateOrderStatus env orderId newStatus (ui, fs))) =
          requests fs @ [UpdateDoc ''orders'' orderId])
   \<and> (find (\<lambda>x. o_id x = orderId) (d_orders ui) \<noteq> None \<and> orders fs orderId \<noteq> None \<and> e_updateReply env \<longrightarrow>
        storedHistory (snd (updateOrderStatus env orderId newStatus (ui, fs))) orderId =
          loadedHistory ui orderId @ [newHistoryEntry env newStatus])"
proof -
  have n: "notifications (snd (updateOrderStatus env orderId newStatus (ui, fs))) = notifications fs"
    by (simp add: updateOrderStatus_def updateDoc_orders_def logged_def Let_def
             split: option.splits)
  have r: "requests (snd (updateOrderStatus env orderId newStatus (ui, fs))) = requests fs
      \<or> requests (snd (updateOrderStatus env orderId newStatus (ui, fs))) =
          requests fs @ [UpdateDoc ''orders'' orderId]"
    by (simp add: updateOrderStatus_def updateDoc_orders_def logged_def Let_def
             split: option.splits)
  have h: "storedHistory (snd (updateOrderStatus env orderId newStatus (ui, fs))) orderId =
          loadedHistory ui orderId @ [newHistoryEntry env newStatus]"
    if "find (\<lambda>x. o_id x = orderId) (d_orders ui) \<noteq> None" "orders fs orderId \<noteq> None" "e_updateReply env"
  proof -
    from that obtain order d where a: "find (\<lambda>x. o_id x = orderId) (d_orders ui) = Some order"
      and b: "orders fs orderId = Some d" by auto
    show ?thesis
      using updateOrderStatus_stored [OF a b that(3), of newStatus]
      by (simp add: storedHistory_def existingHistory_def)
  qed
  show ?thesis using n r h by blast
qed

text \<open>The hypotheses of the last part hold for the dashboard that has just loaded the order.\<close>

theorem updateOrderStatus_creates_no_notification_witness:
  "find (\<lambda>x. o_id x = ''o1'') (d_orders demo_dashboard) \<noteq> None
   \<and> orders demo_store ''o1'' \<noteq> None \<and> e_updateReply demo_env
   \<and> notifications (snd (updateOrderStatus demo_env ''o1'' ''cancelled'' (demo_dashboard, demo_store))) =
       notifications demo_store
   \<and> storedHistory (snd (updateOrderStatus demo_env ''o1'' ''cancelled'' (demo_dashboard, demo_store))) ''o1'' =
       loadedHistory demo_dashboard ''o1'' @ [newHistoryEntry demo_env ''cancelled'']"
proof -
  have a: "find (\<lambda>x. o_id x = ''o1'') (d_orders demo_dashboard) \<noteq> None"
    by (simp add: demo_defs)
  have b: "orders demo_store ''o1'' \<noteq> None" by (simp add: demo_defs)
  have c: "e_updateReply demo_env" by (simp add: demo_defs)
  show ?thesis
    using updateOrderStatus_creates_no_notification
            [of demo_env "''o1''" "''cancelled''" demo_dashboard demo_store] a b c
    by blast
qed

text \<open>
  Claim C3 as stated fails: after a fulfilled update to \<^verbatim>\<open>shipped\<close> the store holds
  no notification, and the update of the order was the only request.
\<close>

theorem updateOrderStatus_no_notification_example:
  "map_option o_status
     (orders (snd (updateOrderStatus demo_env ''o1'' ''shipped'' (demo_dashboard, demo_store))) ''o1'') = Some ''shipped''
   \<and> dom (notifications (snd (updateOrderStatus demo_env ''o1'' ''shipped'' (demo_dashboard, demo_store)))) = {}
   \<and> requests (snd (updateOrderStatus demo_env ''o1'' ''shipped'' (demo_dashboard, demo_store))) =
       [UpdateDoc ''orders'' ''o1'']"
  by (simp add: demo_defs update_defs)

section \<open>Properties of the email verification\<close>

lemmas verify_defs =
  verifyEmail_def getDoc_verificationTokens_def deleteDoc_verificationTokens_def
  updateDoc_users_def verify_caught_def logged_def

lemma verifyEmail_other_tokens:
  "k \<noteq> the token \<Longrightarrow>
   verificationTokens (snd (verifyEmail env token (p, fs))) k = verificationTokens fs k"
  by (simp add: verify_defs Let_def split: option.splits bool.splits)

lemma verifyEmail_expired_users:
  assumes "token = Some tok" "tok \<noteq> []" "verificationTokens fs tok = Some td" "t_expiresAt td < ve_now env"
  shows "users (snd (verifyEmail env token (p, fs))) = users fs"
  using assms by (simp add: verify_defs Let_def split: option.splits bool.splits)

lemma verifyEmail_expired_status:
  assumes "token = Some tok" "tok \<noteq> []" "verificationTokens fs tok = Some td" "t_expiresAt td < ve_now env"
  shows "v_status (fst (verifyEmail env token (p, fs))) = error"
  using assms by (simp add: verify_defs Let_def split: option.splits bool.splits)

lemma verifyEmail_expired_deleted:
  assumes "token = Some tok" "tok \<noteq> []" "verificationTokens fs tok = Some td" "t_expiresAt td < ve_now env"
    "ve_getReply env" "ve_deleteReply env"
  shows "verifyEmail env token (p, fs) =
          (p\<lparr>v_status := error,
             v_message := ''Verification link has expired. Please register again or request a new verification email.''\<rparr>,
           fs\<lparr>verificationTokens := (verificationTokens fs)(tok := None),
               requests := requests fs @ [GetDoc ''verificationTokens'' tok, DeleteDoc ''verificationTokens'' tok]\<rparr>)"
  using assms by (simp add: verify_defs Let_def split: option.splits bool.splits)

lemma verifyEmail_valid:
  assumes "token = Some tok" "tok \<noteq> []" "verificationTokens fs tok = Some td" "\<not> t_expiresAt td < ve_now env"
    "users fs (t_userId td) = Some u"
    "ve_getReply env" "ve_updateReply env" "ve_deleteReply env"
  shows "verifyEmail env token (p, fs) =
          (p\<lparr>v_status := success,
              v_message := ''Email verified successfully! You can now log in to your account.'',
              v_toasts := v_toasts p @ [''Email verified! Redirecting to login...''],
              v_redirect := Some ''/login''\<rparr>,
           fs\<lparr>users := (users fs)(t_userId td \<mapsto> u\<lparr>u_emailVerified := Some True, u_verifiedAt := Some (ve_verifiedAt env)\<rparr>),
               verificationTokens := (verificationTokens fs)(tok := None),
               requests := requests fs @ [GetDoc ''verificationTokens'' tok, UpdateDoc ''users'' (t_userId td),
                    DeleteDoc ''verificationTokens'' tok]\<rparr>)"
  using assms by (simp add: verify_defs Let_def split: option.splits bool.splits)

lemmas demo_verify_defs =
  demo_user_def demo_token_def demo_page_def demo_verify_store_def demo_verify_env_def

subsection \<open>C4: an expired token\<close>

text \<open>
  Claim C4. For every verification request whose token document exists and whose stored
  \<^verbatim>\<open>expiresAt\<close> is strictly before the clock reading of the check, the verification
  is denied: the page shows an error and no user document is modified, whatever the
  backend replies. The code then asks the store to delete the token document; when the
  backend fulfils the read and the delete, the token document is gone. The run touches no
  other token document, so other expired tokens stay until a request discovers them:
  there is no sweep.
\<close>

theorem verifyEmail_expired_token_denied_and_deleted:
  assumes "tok \<noteq> []"
      and "verificationTokens fs tok = Some td"
      and "t_expiresAt td < ve_now env"
  shows "users (snd (verifyEmail env (Some tok) (p, fs))) = users fs
       \<and> v_status (fst (verifyEmail env (Some tok) (p, fs))) = error
       \<and> (ve_getReply env \<and> ve_deleteReply env \<longrightarrow>
            verificationTokens (snd (verifyEmail env (Some tok) (p, fs))) tok = None
          \<and> requests (snd (verifyEmail env (Some tok) (p, fs))) =
              requests fs @ [GetDoc ''verificationTokens'' tok, DeleteDoc ''verificationTokens'' tok])
       \<and> (\<forall>k. k \<noteq> tok \<longrightarrow>
            verificationTokens (snd (verifyEmail env (Some tok) (p, fs))) k = verificationTokens fs k)"
proof -
  have u: "users (snd (verifyEmail env (Some tok) (p, fs))) = users fs"
    using assms by (simp add: verifyEmail_expired_users)
  have s: "v_status (fst (verifyEmail env (Some tok) (p, fs))) = error"
    using assms by (simp add: verifyEmail_expired_status)
  have d: "verificationTokens (snd (verifyEmail env (Some tok) (p, fs))) tok = None
          \<and> requests (snd (verifyEmail env (Some tok) (p, fs))) =
              requests fs @ [GetDoc ''verificationTokens'' tok, DeleteDoc ''verificationTokens'' tok]"
    if "ve_getReply env" "ve_deleteReply env"
    using assms that by (simp add: verifyEmail_expired_deleted)
  have k: "\<forall>k. k \<noteq> tok \<longrightarrow>
            verificationTokens (snd (verifyEmail env (Some tok) (p, fs))) k = verificationTokens fs k"
    using verifyEmail_other_tokens [of _ "Some tok" env p fs] by simp
  show ?thesis using u s d k by blast
qed

text \<open>
  One millisecond after the expiry the user stays unverified and the token is deleted,
  while the token that expired long ago is still stored.
\<close>

theorem verifyEmail_expired_witness:
  "''tk'' \<noteq> [] \<and> verificationTokens demo_verify_store ''tk'' = Some demo_token
   \<and> t_expiresAt demo_token < ve_now (demo_verify_env 90000001)
   \<and> ve_getReply (demo_verify_env 90000001) \<and> ve_deleteReply (demo_verify_env 90000001)
   \<and> users (snd (verifyEmail (demo_verify_env 90000001) (Some ''tk'') (demo_page, demo_verify_store))) ''u1'' =
       Some demo_user
   \<and> verificationTokens
        (snd (verifyEmail (demo_verify_env 90000001) (Some ''tk'') (demo_page, demo_verify_store))) ''tk'' = None
   \<and> verificationTokens
        (snd (verifyEmail (demo_verify_env 90000001) (Some ''tk'') (demo_page, demo_verify_store))) ''old'' =
       Some (demo_token\<lparr>t_expiresAt := 5000\<rparr>)"
proof -
  have a: "''tk'' \<noteq> []" by simp
  have b: "verificationTokens demo_verify_store ''tk'' = Some demo_token"
    by (simp add: demo_verify_store_def)
  have c: "t_expiresAt demo_token < ve_now (demo_verify_env 90000001)"
    by (simp add: demo_token_def demo_verify_env_def)
  have d: "ve_getReply (demo_verify_env 90000001) \<and> ve_deleteReply (demo_verify_env 90000001)"
    by (simp add: demo_verify_env_def)
  have e: "users demo_verify_store ''u1'' = Some demo_user"
    by (simp add: demo_verify_store_def)
  have f: "verificationTokens demo_verify_store ''old'' = Some (demo_token\<lparr>t_expiresAt := 5000\<rparr>)"
    by (simp add: demo_verify_store_def)
  have g: "''old'' \<noteq> ''tk''" by simp
  show ?thesis
    using verifyEmail_expired_token_denied_and_deleted [OF a b c, of demo_page] a b c d e f g
    by simp
qed

section \<open>Properties of the registration\<close>

lemma demo_make_token:
  "make_token (demo_reg_env tz) ''u1'' = ''u1_1772902800000_k3x9''"
  by (simp add: make_token_def demo_reg_env_def number_string_def)

lemma time_fields_linear:
  fixes x :: int
  assumes "m1 = 1000 * S + ms" and "m2 = 60000 * M + m1" and "m3 = 3600000 * H + m2"
      and "x = D * 86400000 + m3"
  shows "D * 86400000 + ((H + 24) * 3600000 + M * 60000 + S * 1000 + ms) = x + 86400000"
  using assms by (simp add: algebra_simps)

lemma MakeDate_next_day:
  "MakeDate (Day x) (MakeTime (HourFromTime x + 24) (MinFromTime x) (SecFromTime x) (msFromTime x))
     = x + msPerDay"
proof -
  have a: "x mod 60000 = 1000 * (x div 1000 mod 60) + x mod 1000"
    using zmod_zmult2_eq [of 60 x 1000] by simp
  have b: "x mod 3600000 = 60000 * (x div 60000 mod 60) + x mod 60000"
    using zmod_zmult2_eq [of 60 x 60000] by simp
  have c: "x mod 86400000 = 3600000 * (x div 3600000 mod 24) + x mod 3600000"
    using zmod_zmult2_eq [of 24 x 3600000] by simp
  have d: "x = x div 86400000 * 86400000 + x mod 86400000"
    by simp
  show ?thesis
    unfolding MakeDate_def MakeTime_def Day_def HourFromTime_def MinFromTime_def SecFromTime_def
      msFromTime_def msPerDay_def msPerHour_def msPerMinute_def msPerSecond_def
    by (rule time_fields_linear [OF a b c d])
qed

lemma setHours_plus_24:
  "setHours tz t (getHours tz t + 24) = UTC tz (LocalTime tz t + msPerDay)"
  by (simp add: setHours_def getHours_def Let_def MakeDate_next_day)

lemma make_expiresAt_fixed_offset:
  assumes "rg_zone env (rg_expiresBase env) True = off"
      and "rg_zone env (rg_expiresBase env + off + msPerDay) False = off"
  shows "make_expiresAt env = rg_expiresBase env + 24 * msPerHour"
  using assms by (simp add: make_expiresAt_def setHours_plus_24 UTC_def LocalTime_def msPerDay_def msPerHour_def)

lemma demo_make_expiresAt_new_york:
  "make_expiresAt (demo_reg_env zone_new_york_2026) = 1772902800000 + 23 * msPerHour"
  by (simp add: make_expiresAt_def setHours_plus_24 UTC_def LocalTime_def msPerDay_def msPerHour_def
      demo_reg_env_def zone_new_york_2026_def)

lemma handleRegister_fulfilled:
  assumes "rf_password formData = rf_confirmPassword formData"
      and "\<not> length (rf_password formData) < 6"
      and "startsWith (rf_phone formData) ''+63''"
      and "length (rf_phone formData) = 13"
      and "rg_createUser env = Inr uid"
      and "rg_updateProfile env = None"
      and "rg_setUser env = None"
      and "rg_setToken env = None"
      and "rg_emailSend env = None"
      and "rg_signOut env = None"
  shows "snd (handleRegister env formData (p, fs)) =
           fs\<lparr>users := (users fs)(uid \<mapsto>
                  \<lparr>u_id = uid, u_email = rf_email formData, u_name = rf_username formData,
                   u_phone = rf_phone formData, u_role = role_user,
                   u_emailVerified = Some False, u_createdAt = rg_userCreatedAt env,
                   u_verifiedAt = None\<rparr>),
               verificationTokens := (verificationTokens fs)(make_token env uid \<mapsto>
                  \<lparr>t_userId = uid, t_email = rf_email formData,
                   t_createdAt = rg_tokenCreatedAt env,
                   t_expiresAt = make_expiresAt env\<rparr>),
               requests := requests fs @
                  [SetDoc ''users'' uid, SetDoc ''verificationTokens'' (make_token env uid)]\<rparr>"
  using assms
  by (simp add: handleRegister_def setDoc_users_def setDoc_verificationTokens_def logged_def Let_def)

text \<open>
  In a time zone whose offset from UTC is the same at the registration and one local day
  later (every zone without daylight saving time, such as Philippine time), the stored
  \<^verbatim>\<open>expiresAt\<close> is exactly 24 hours after the clock reading from which it is
  computed, and the token key begins with the uid of the new user followed by an
  underscore.
\<close>

lemma handleRegister_token_fixed_offset:
  assumes "rf_password formData = rf_confirmPassword formData"
      and "\<not> length (rf_password formData) < 6"
      and "startsWith (rf_phone formData) ''+63''"
      and "length (rf_phone formData) = 13"
      and "rg_createUser env = Inr uid"
      and "rg_updateProfile env = None"
      and "rg_setUser env = None"
      and "rg_setToken env = None"
      and "rg_emailSend env = None"
      and "rg_signOut env = None"
      and "rg_zone env (rg_expiresBase env) True = off"
      and "rg_zone env (rg_expiresBase env + off + msPerDay) False = off"
  shows "map_option t_expiresAt
           (verificationTokens (snd (handleRegister env formData (p, fs))) (make_token env uid)) =
           Some (rg_expiresBase env + 24 * msPerHour)
       \<and> take (length uid + 1) (make_token env uid) = uid @ ''_''"
  using handleRegister_fulfilled [OF assms(1-10), of p fs]
        make_expiresAt_fixed_offset [OF assms(11,12)]
  by (simp add: make_token_def)

lemma handleRegister_token_manila:
  "map_option t_expiresAt
     (verificationTokens
        (snd (handleRegister (demo_reg_env zone_manila) demo_form (demo_reg_page, empty_store)))
        ''u1_1772902800000_k3x9'') = Some (1772902800000 + 24 * msPerHour)"
proof -
  have "map_option t_expiresAt
           (verificationTokens
              (snd (handleRegister (demo_reg_env zone_manila) demo_form (demo_reg_page, empty_store)))
              (make_token (demo_reg_env zone_manila) ''u1'')) =
           Some (rg_expiresBase (demo_reg_env zone_manila) + 24 * msPerHour)
       \<and> take (length ''u1'' + 1) (make_token (demo_reg_env zone_manila) ''u1'') = ''u1'' @ ''_''"
    by (rule handleRegister_token_fixed_offset [where off = "8 * msPerHour"])
       (simp_all add: demo_form_def demo_reg_env_def startsWith_def zone_manila_def)
  then show ?thesis
    by (simp add: demo_make_token) (simp add: demo_reg_env_def)
qed

text \<open>
  A registration that stores a verification token has stored the document of the user
  that the token names: the user document is written first, and a failure of that write
  ends the registration.
\<close>

lemma handleRegister_tokens_unchanged:
  assumes "rf_password formData \<noteq> rf_confirmPassword formData
         \<or> length (rf_password formData) < 6
         \<or> \<not> startsWith (rf_phone formData) ''+63'' \<or> length (rf_phone formData) \<noteq> 13
         \<or> (\<exists>err. rg_createUser env = Inl err) \<or> rg_updateProfile env \<noteq> None
         \<or> rg_setUser env \<noteq> None \<or> rg_setToken env \<noteq> None"
  shows "verificationTokens (snd (handleRegister env formData (p, fs))) = verificationTokens fs"
proof (cases "rg_createUser env")
  case (Inl err)
  then show ?thesis by (simp add: handleRegister_def Let_def)
next
  case (Inr uid)
  show ?thesis
  proof (cases "rg_updateProfile env")
    case (Some err)
    then show ?thesis using Inr by (simp add: handleRegister_def Let_def)
  next
    case None
    show ?thesis
    proof (cases "rg_setUser env")
      case (Some err)
      then show ?thesis
        using Inr None by (simp add: handleRegister_def Let_def setDoc_users_def logged_def)
    next
      case su: None
      show ?thesis
      proof (cases "rg_setToken env")
        case (Some err)
        then show ?thesis
          using Inr None su
          by (simp add: handleRegister_def Let_def setDoc_users_def
                setDoc_verificationTokens_def logged_def)
      next
        case st: None
        then show ?thesis
          using assms Inr None su
          by (auto simp add: handleRegister_def Let_def)
      qed
    qed
  qed
qed


lemma handleRegister_token_has_user:
  assumes "verificationTokens (snd (handleRegister env formData (p, fs))) k \<noteq> verificationTokens fs k"
  shows "\<exists>td. verificationTokens (snd (handleRegister env formData (p, fs))) k = Some td
            \<and> users (snd (handleRegister env formData (p, fs))) (t_userId td) \<noteq> None"
proof -
  have ok: "rf_password formData = rf_confirmPassword formData"
      "\<not> length (rf_password formData) < 6"
      "startsWith (rf_phone formData) ''+63''" "length (rf_phone formData) = 13"
      "rg_updateProfile env = None" "rg_setUser env = None" "rg_setToken env = None"
    and cu: "\<not> (\<exists>err. rg_createUser env = Inl err)"
  proof -
    have "\<not> (rf_password formData \<noteq> rf_confirmPassword formData
         \<or> length (rf_password formData) < 6
         \<or> \<not> startsWith (rf_phone formData) ''+63'' \<or> length (rf_phone formData) \<noteq> 13
         \<or> (\<exists>err. rg_createUser env = Inl err) \<or> rg_updateProfile env \<noteq> None
         \<or> rg_setUser env \<noteq> None \<or> rg_setToken env \<noteq> None)"
    proof
      assume "rf_password formData \<noteq> rf_confirmPassword formData
         \<or> length (rf_password formData) < 6
         \<or> \<not> startsWith (rf_phone formData) ''+63'' \<or> length (rf_phone formData) \<noteq> 13
         \<or> (\<exists>err. rg_createUser env = Inl err) \<or> rg_updateProfile env \<noteq> None
         \<or> rg_setUser env \<noteq> None \<or> rg_setToken env \<noteq> None"
      then have "verificationTokens (snd (handleRegister env formData (p, fs))) = verificationTokens fs"
        by (rule handleRegister_tokens_unchanged)
      then show False using assms by simp
    qed
    then show "rf_password formData = rf_confirmPassword formData"
      "\<not> length (rf_password formData) < 6"
      "startsWith (rf_phone formData) ''+63''" "length (rf_phone formData) = 13"
      "rg_updateProfile env = None" "rg_setUser env = None" "rg_setToken env = None"
      "\<not> (\<exists>err. rg_createUser env = Inl err)"
      by blast+
  qed
  from cu obtain uid where uid: "rg_createUser env = Inr uid"
    by (cases "rg_createUser env") auto
  have tk: "verificationTokens (snd (handleRegister env formData (p, fs))) =
              (verificationTokens fs)(make_token env uid \<mapsto>
                  \<lparr>t_userId = uid, t_email = rf_email formData,
                   t_createdAt = rg_tokenCreatedAt env,
                   t_expiresAt = make_expiresAt env\<rparr>)"
    and us: "users (snd (handleRegister env formData (p, fs))) uid \<noteq> None"
  proof (atomize(full), cases "rg_emailSend env")
    case None
    then show "verificationTokens (snd (handleRegister env formData (p, fs))) =
              (verificationTokens fs)(make_token env uid \<mapsto>
                  \<lparr>t_userId = uid, t_email = rf_email formData,
                   t_createdAt = rg_tokenCreatedAt env,
                   t_expiresAt = make_expiresAt env\<rparr>)
         \<and> users (snd (handleRegister env formData (p, fs))) uid \<noteq> None"
      using ok uid
      by (cases "rg_signOut env")
         (simp_all add: handleRegister_def Let_def setDoc_users_def
                setDoc_verificationTokens_def logged_def)
  next
    case (Some err)
    then show "verificationTokens (snd (handleRegister env formData (p, fs))) =
              (verificationTokens fs)(make_token env uid \<mapsto>
                  \<lparr>t_userId = uid, t_email = rf_email formData,
                   t_createdAt = rg_tokenCreatedAt env,
                   t_expiresAt = make_expiresAt env\<rparr>)
         \<and> users (snd (handleRegister env formData (p, fs))) uid \<noteq> None"
      using ok uid
      by (simp add: handleRegister_def Let_def setDoc_users_def
                setDoc_verificationTokens_def logged_def)
  qed
  have "k = make_token env uid"
    using assms tk by (auto split: if_splits)
  then show ?thesis using tk us by simp
qed

subsection \<open>C9: the expiry of a verification token\<close>

text \<open>
  Claim C9 says that every verification token created at registration stores an
  \<^verbatim>\<open>expiresAt\<close> exactly 24 hours after its creation time, as the comment of the code
  does (\<^verbatim>\<open>expires in 24 hours\<close>). The code adds 24 to the hour of the local time
  instead. For a registration in US Eastern time at noon of 7 March 2026, the day before
  daylight saving time begins, every call fulfilled and all clock readings equal, the
  stored \<^verbatim>\<open>expiresAt\<close> is 23 hours after the stored \<^verbatim>\<open>createdAt\<close>.
\<close>

theorem handleRegister_expiry_across_dst:
  "map_option t_expiresAt
     (verificationTokens
        (snd (handleRegister (demo_reg_env zone_new_york_2026) demo_form (demo_reg_page, empty_store)))
        ''u1_1772902800000_k3x9'') = Some (1772902800000 + 23 * msPerHour)
   \<and> map_option t_createdAt
     (verificationTokens
        (snd (handleRegister (demo_reg_env zone_new_york_2026) demo_form (demo_reg_page, empty_store)))
        ''u1_1772902800000_k3x9'') = Some 1772902800000"
proof -
  have "snd (handleRegister (demo_reg_env zone_new_york_2026) demo_form (demo_reg_page, empty_store)) =
          empty_store\<lparr>users := (users empty_store)(''u1'' \<mapsto>
                  \<lparr>u_id = ''u1'', u_email = rf_email demo_form, u_name = rf_username demo_form,
                   u_phone = rf_phone demo_form, u_role = role_user,
                   u_emailVerified = Some False,
                   u_createdAt = rg_userCreatedAt (demo_reg_env zone_new_york_2026),
                   u_verifiedAt = None\<rparr>),
               verificationTokens := (verificationTokens empty_store)
                 (make_token (demo_reg_env zone_new_york_2026) ''u1'' \<mapsto>
                  \<lparr>t_userId = ''u1'', t_email = rf_email demo_form,
                   t_createdAt = rg_tokenCreatedAt (demo_reg_env zone_new_york_2026),
                   t_expiresAt = make_expiresAt (demo_reg_env zone_new_york_2026)\<rparr>),
               requests := requests empty_store @
                  [SetDoc ''users'' ''u1'',
                   SetDoc ''verificationTokens'' (make_token (demo_reg_env zone_new_york_2026) ''u1'')]\<rparr>"
    by (rule handleRegister_fulfilled)
       (simp_all add: demo_form_def demo_reg_env_def startsWith_def)
  then show ?thesis
    by (simp add: demo_make_token demo_make_expiresAt_new_york) (simp add: demo_reg_env_def)
qed


text \<open>The token of that registration expires 82800000 milliseconds after its creation.\<close>

theorem handleRegister_expiry_across_dst_witness:
  "map_option (\<lambda>d. t_expiresAt d - t_createdAt d)
     (verificationTokens
        (snd (handleRegister (demo_reg_env zone_new_york_2026) demo_form (demo_reg_page, empty_store)))
        ''u1_1772902800000_k3x9'') = Some 82800000"
proof -
  obtain d where d: "verificationTokens
        (snd (handleRegister (demo_reg_env zone_new_york_2026) demo_form (demo_reg_page, empty_store)))
        ''u1_1772902800000_k3x9'' = Some d"
    using handleRegister_expiry_across_dst by (auto simp add: map_option_case split: option.splits)
  show ?thesis
    using handleRegister_expiry_across_dst d by (simp add: msPerHour_def)
qed

section \<open>Properties of the checkout\<close>

lemmas checkout_demo_defs =
  demo_checkout_form_def demo_checkout_page_def demo_checkout_env_def

lemma demo_checkout_valid: "validate demo_checkout_form = []"
  by (simp add: validate_def demo_checkout_form_def validateEmail_def validatePhone_def
        validateGCash_def falsy_def is_space_def is_digit_def)

lemma createNewOrderNotification_fulfilled:
  "fst (fst (createNewOrderNotification env orderId orderData fs)) = True"
  by (simp add: createNewOrderNotification_def addDoc_notifications_def split: option.splits)

lemma createNewOrderNotification_added:
  assumes "ne_addReply env = Some nid"
  shows "snd (createNewOrderNotification env orderId orderData fs) =
           fs\<lparr>notifications := (notifications fs)(nid \<mapsto> newOrderNotification env orderId orderData),
               requests := requests fs @ [AddDoc ''notifications'']\<rparr>"
  using assms
  by (simp add: createNewOrderNotification_def addDoc_notifications_def logged_def)

lemma newOrderNotification_fields:
  "n_type (newOrderNotification env orderId orderData) = new_order"
  "n_orderId (newOrderNotification env orderId orderData) = orderId"
  "n_recipientRole (newOrderNotification env orderId orderData) = both"
  "n_read (newOrderNotification env orderId orderData) = False"
  by (simp_all add: newOrderNotification_def Let_def)

lemma createNewOrderNotification_rejected:
  assumes "ne_addReply env = None"
  shows "snd (createNewOrderNotification env orderId orderData fs) =
           fs\<lparr>requests := requests fs @ [AddDoc ''notifications'']\<rparr>"
  using assms
  by (simp add: createNewOrderNotification_def addDoc_notifications_def logged_def)

lemma handleSubmit_order_stored:
  assumes "validate formData = []"
      and "ce_orderReply env = Some orderId"
  shows "handleSubmit env formData (p, fs) =
           (p\<lparr>c_errors := [], c_cart := [],
              c_toasts := c_toasts p @ [''Order placed successfully!''],
              c_navigated := Some ''/'',
              c_submitting := False\<rparr>,
            snd (createNewOrderNotification (ce_notify env) orderId
                   (orderData_of env formData (c_cart p))
                   (fs\<lparr>orders := (orders fs)(orderId \<mapsto> orderData_of env formData (c_cart p)),
                       requests := requests fs @ [AddDoc ''orders'']\<rparr>)))"
proof -
  obtain b out fs2 where c: "createNewOrderNotification (ce_notify env) orderId
                   (orderData_of env formData (c_cart p))
                   (fs\<lparr>orders := (orders fs)(orderId \<mapsto> orderData_of env formData (c_cart p)),
                       requests := requests fs @ [AddDoc ''orders'']\<rparr>) = ((b, out), fs2)"
    by (metis prod.exhaust)
  have b: "b = True"
    using createNewOrderNotification_fulfilled [of "ce_notify env" orderId
        "orderData_of env formData (c_cart p)"
        "fs\<lparr>orders := (orders fs)(orderId \<mapsto> orderData_of env formData (c_cart p)),
                       requests := requests fs @ [AddDoc ''orders'']\<rparr>"] c by simp
  show ?thesis
    using assms c b
    by (simp add: handleSubmit_def addDoc_orders_def logged_def Let_def)
qed

lemma handleSubmit_invalid:
  assumes "validate formData \<noteq> []"
  shows "handleSubmit env formData (p, fs) =
           (p\<lparr>c_errors := validate formData,
              c_toasts := c_toasts p @ [''Please fix the errors in the form.'']\<rparr>, fs)"
  using assms by (simp add: handleSubmit_def Let_def)

subsection \<open>C6: the notification of a new order\<close>

text \<open>
  Claim C6. When a checkout stores an order and the backend also fulfils the write of
  the notification, the notification created has \<^verbatim>\<open>type = 'new_order'\<close>,
  \<^verbatim>\<open>recipientRole = 'both'\<close>, \<^verbatim>\<open>read = false\<close> and an \<^verbatim>\<open>orderId\<close> equal to the
  id of the order document just created; no other notification is created or changed. The
  notification is written by a request of its own, issued after the request that writes
  the order: the two writes are not one atomic write.
\<close>

theorem checkout_notification_for_new_order:
  assumes "validate formData = []"
      and "ce_orderReply env = Some orderId"
      and "ne_addReply (ce_notify env) = Some nid"
  shows "map_option n_type (notifications (snd (handleSubmit env formData (p, fs))) nid) = Some new_order
       \<and> map_option n_orderId (notifications (snd (handleSubmit env formData (p, fs))) nid) = Some orderId
       \<and> map_option n_recipientRole (notifications (snd (handleSubmit env formData (p, fs))) nid) = Some both
       \<and> map_option n_read (notifications (snd (handleSubmit env formData (p, fs))) nid) = Some False
       \<and> (\<forall>k. k \<noteq> nid \<longrightarrow>
             notifications (snd (handleSubmit env formData (p, fs))) k = notifications fs k)
       \<and> orders (snd (handleSubmit env formData (p, fs))) orderId =
            Some (orderData_of env formData (c_cart p))
       \<and> requests (snd (handleSubmit env formData (p, fs))) =
            requests fs @ [AddDoc ''orders'', AddDoc ''notifications'']"
proof -
  let ?fs1 = "fs\<lparr>orders := (orders fs)(orderId \<mapsto> orderData_of env formData (c_cart p)),
                  requests := requests fs @ [AddDoc ''orders'']\<rparr>"
  have "snd (handleSubmit env formData (p, fs)) =
          ?fs1\<lparr>notifications := (notifications ?fs1)
                   (nid \<mapsto> newOrderNotification (ce_notify env) orderId
                                 (orderData_of env formData (c_cart p))),
                requests := requests ?fs1 @ [AddDoc ''notifications'']\<rparr>"
    using handleSubmit_order_stored [OF assms(1,2), of p fs]
          createNewOrderNotification_added [OF assms(3), of orderId
            "orderData_of env formData (c_cart p)" ?fs1]
    by simp
  then show ?thesis by (simp add: newOrderNotification_fields)
qed

text \<open>The hypotheses hold for the example checkout.\<close>

theorem checkout_notification_witness:
  "validate demo_checkout_form = []
   \<and> map_option n_type
        (notifications (snd (handleSubmit (demo_checkout_env (Some ''n1'')) demo_checkout_form
                               (demo_checkout_page, empty_store))) ''n1'') = Some new_order
   \<and> map_option n_orderId
        (notifications (snd (handleSubmit (demo_checkout_env (Some ''n1'')) demo_checkout_form
                               (demo_checkout_page, empty_store))) ''n1'') = Some ''o1''
   \<and> requests (snd (handleSubmit (demo_checkout_env (Some ''n1'')) demo_checkout_form
                               (demo_checkout_page, empty_store))) =
        [AddDoc ''orders'', AddDoc ''notifications'']"
proof -
  have a: "ce_orderReply (demo_checkout_env (Some ''n1'')) = Some ''o1''"
    by (simp add: demo_checkout_env_def)
  have b: "ne_addReply (ce_notify (demo_checkout_env (Some ''n1''))) = Some ''n1''"
    by (simp add: demo_checkout_env_def)
  have c: "requests empty_store = []" by (simp add: empty_store_def)
  show ?thesis
    using checkout_notification_for_new_order [OF demo_checkout_valid a b, of demo_checkout_page empty_store]
          demo_checkout_valid c
    by simp
qed

subsection \<open>C7: a failed notification write\<close>

text \<open>
  Claim C7. When the order write succeeds and the notification write fails, the promise
  of \<^verbatim>\<open>createNewOrderNotification\<close> is still fulfilled (the error is caught and logged,
  never propagated), and the checkout completes as a success: the cart is cleared, the
  success toast is shown and the page navigates home. The created order remains, no
  notification exists, and the requests issued are the write of the order and one write of
  the notification: there is no retry.
\<close>

theorem checkout_tolerates_notification_failure:
  assumes "validate formData = []"
      and "ce_orderReply env = Some orderId"
      and "ne_addReply (ce_notify env) = None"
  shows "fst (fst (createNewOrderNotification (ce_notify env) orderId
                     (orderData_of env formData (c_cart p)) fs1)) = True
       \<and> c_cart (fst (handleSubmit env formData (p, fs))) = []
       \<and> c_toasts (fst (handleSubmit env formData (p, fs))) =
            c_toasts p @ [''Order placed successfully!'']
       \<and> c_navigated (fst (handleSubmit env formData (p, fs))) = Some ''/''
       \<and> orders (snd (handleSubmit env formData (p, fs))) orderId =
            Some (orderData_of env formData (c_cart p))
       \<and> notifications (snd (handleSubmit env formData (p, fs))) = notifications fs
       \<and> requests (snd (handleSubmit env formData (p, fs))) =
            requests fs @ [AddDoc ''orders'', AddDoc ''notifications'']"
  using handleSubmit_order_stored [OF assms(1,2), of p fs]
  by (simp add: createNewOrderNotification_fulfilled createNewOrderNotification_rejected [OF assms(3)])

text \<open>The hypotheses hold for the example checkout with a rejected notification write.\<close>

theorem checkout_tolerates_notification_failure_witness:
  "validate demo_checkout_form = []
   \<and> ne_addReply (ce_notify (demo_checkout_env None)) = None
   \<and> c_cart (fst (handleSubmit (demo_checkout_env None) demo_checkout_form
                      (demo_checkout_page, empty_store))) = []
   \<and> c_toasts (fst (handleSubmit (demo_checkout_env None) demo_checkout_form
                      (demo_checkout_page, empty_store))) = [''Order placed successfully!'']
   \<and> map_option o_status
        (orders (snd (handleSubmit (demo_checkout_env None) demo_checkout_form
                        (demo_checkout_page, empty_store))) ''o1'') = Some ''pending''
   \<and> dom (notifications (snd (handleSubmit (demo_checkout_env None) demo_checkout_form
                                 (demo_checkout_page, empty_store)))) = {}
   \<and> requests (snd (handleSubmit (demo_checkout_env None) demo_checkout_form
                        (demo_checkout_page, empty_store))) =
        [AddDoc ''orders'', AddDoc ''notifications'']"
proof -
  have a: "ce_orderReply (demo_checkout_env None) = Some ''o1''"
    by (simp add: demo_checkout_env_def)
  have b: "ne_addReply (ce_notify (demo_checkout_env None)) = None"
    by (simp add: demo_checkout_env_def)
  have c: "requests empty_store = []" "notifications empty_store = Map.empty"
    by (simp_all add: empty_store_def)
  have d: "c_toasts demo_checkout_page = []" by (simp add: demo_checkout_page_def)
  have e: "o_status (orderData_of (demo_checkout_env None) demo_checkout_form (c_cart demo_checkout_page)) = ''pending''"
    by (simp add: orderData_of_def Let_def)
  show ?thesis
    using checkout_tolerates_notification_failure
            [OF demo_checkout_valid a b, of demo_checkout_page empty_store empty_store]
          demo_checkout_valid b c d e
    by simp
qed

text \<open>
  \<open>validateEmail\<close> accepts exactly the strings that the regular expression matches: a
  non-empty part, \<^verbatim>\<open>@\<close>, a non-empty part, a dot and a non-empty part, where no
  part holds white space or \<^verbatim>\<open>@\<close>.
\<close>

lemma validateEmail_sound:
  assumes v: "validateEmail s"
  shows "\<exists>a b c. s = a @ ''@'' @ b @ ''.'' @ c \<and> a \<noteq> [] \<and> b \<noteq> [] \<and> c \<noteq> []
            \<and> list_all email_char a \<and> list_all email_char b \<and> list_all email_char c"
proof -
  define name where "name = takeWhile (\<lambda>c. c \<noteq> CHR ''@'') s"
  define rest where "rest = dropWhile (\<lambda>c. c \<noteq> CHR ''@'') s"
  from v have n: "name \<noteq> []" "list_all (\<lambda>c. \<not> is_space c) name" "rest \<noteq> []"
    and d: "list_all (\<lambda>c. \<not> is_space c \<and> c \<noteq> CHR ''@'') (tl rest)"
    and dot: "CHR ''.'' \<in> set (tl (butlast (tl rest)))"
    by (simp_all add: validateEmail_def Let_def name_def rest_def)
  have "hd rest = CHR ''@''"
    using n(3) hd_dropWhile [of "\<lambda>c. c \<noteq> CHR ''@''" s] by (simp add: rest_def)
  then have r: "rest = CHR ''@'' # tl rest"
    using n(3) by (cases rest) simp_all
  have "s = name @ rest"
    by (simp add: name_def rest_def)
  then have s: "s = name @ CHR ''@'' # tl rest"
    using r by simp
  have "\<forall>x \<in> set name. x \<noteq> CHR ''@''"
    by (auto simp add: name_def dest: set_takeWhileD)
  then have na: "list_all email_char name"
    using n(2) by (simp add: list_all_iff email_char_def)
  define dm where "dm = tl rest"
  from dot have ne: "dm \<noteq> []" by (auto simp add: dm_def)
  from dot obtain u w where uw: "tl (butlast dm) = u @ CHR ''.'' # w"
    unfolding dm_def by (meson split_list)
  then obtain x where x: "butlast dm = x # u @ CHR ''.'' # w"
    by (cases "butlast dm") simp_all
  have "dm = butlast dm @ [last dm]"
    using ne by simp
  then have dd: "dm = (x # u) @ CHR ''.'' # (w @ [last dm])"
    using x by simp
  have all: "list_all email_char dm"
    using d by (simp add: list_all_iff email_char_def dm_def)
  have "list_all email_char ((x # u) @ CHR ''.'' # (w @ [last dm]))"
    using all dd by simp
  then have p: "list_all email_char (x # u)" "list_all email_char (w @ [last dm])"
    by (simp_all only: list_all_append list.pred_inject)
  have "s = name @ ''@'' @ (x # u) @ ''.'' @ (w @ [last dm])"
    using s dd by (simp add: dm_def)
  moreover have "x # u \<noteq> []" "w @ [last dm] \<noteq> []" by simp_all
  ultimately show ?thesis
    using n(1) na p by blast
qed

lemma validateEmail_complete:
  assumes s: "s = a @ ''@'' @ b @ ''.'' @ c"
      and ne: "a \<noteq> []" "b \<noteq> []" "c \<noteq> []"
      and ok: "list_all email_char a" "list_all email_char b" "list_all email_char c"
  shows "validateEmail s"
proof -
  have an: "\<forall>x \<in> set a. x \<noteq> CHR ''@''"
    using ok(1) by (simp add: list_all_iff email_char_def)
  have tw: "takeWhile (\<lambda>c. c \<noteq> CHR ''@'') s = a"
    unfolding s using an by (simp add: takeWhile_append2)
  have dw: "dropWhile (\<lambda>c. c \<noteq> CHR ''@'') s = CHR ''@'' # b @ CHR ''.'' # c"
    unfolding s using an by (simp add: dropWhile_append2)
  obtain c' z where c: "c = c' @ [z]"
    using ne(3) by (metis append_butlast_last_id)
  obtain y b' where b: "b = y # b'"
    using ne(2) by (cases b) simp_all
  have bt: "tl (butlast (b @ CHR ''.'' # c)) = b' @ CHR ''.'' # c'"
    unfolding b c by (simp add: butlast_append)
  have sp: "list_all (\<lambda>c. \<not> is_space c) a"
    using ok(1) by (simp add: list_all_iff email_char_def)
  have dt: "email_char CHR ''.''"
    by (simp add: email_char_def is_space_def)
  have al: "list_all (\<lambda>c. \<not> is_space c \<and> c \<noteq> CHR ''@'') (b @ CHR ''.'' # c)"
    using ok(2,3) dt by (auto simp add: list_all_iff email_char_def)
  show ?thesis
    using ne(1) sp al by (simp add: validateEmail_def Let_def tw dw bt)
qed

lemma validatePhone_digits:
  "validatePhone s \<Longrightarrow> length s = 11 \<and> take 2 s = ''09'' \<and> list_all is_digit s"
proof -
  assume v: "validatePhone s"
  then have a: "length s = 11" "take 2 s = ''09''" "list_all is_digit (drop 2 s)"
    by (simp_all add: validatePhone_def)
  have "list_all is_digit (take 2 s)"
    using a(2) by (simp add: is_digit_def)
  then have "list_all is_digit (take 2 s @ drop 2 s)"
    using a(3) by (simp only: list_all_append simp_thms)
  then have "list_all is_digit s"
    by (simp only: append_take_drop_id)
  then show ?thesis using a(1,2) by simp
qed

lemma validateGCash_validatePhone: "validateGCash s = validatePhone s"
  by (simp add: validateGCash_def validatePhone_def)

text \<open>The validation accepts a form exactly when every check of \<^verbatim>\<open>validate\<close> passes.\<close>

lemma validate_empty_iff:
  "validate formData = [] \<longleftrightarrow>
     f_firstName formData \<noteq> [] \<and> f_lastName formData \<noteq> []
   \<and> f_email formData \<noteq> [] \<and> validateEmail (f_email formData)
   \<and> f_phone formData \<noteq> [] \<and> validatePhone (f_phone formData)
   \<and> f_address formData \<noteq> [] \<and> f_city formData \<noteq> [] \<and> f_zipCode formData \<noteq> []
   \<and> (f_paymentMethod formData = gcash \<longrightarrow>
        \<not> falsy (f_gcashNumber formData) \<and> validateGCash (the (f_gcashNumber formData)))
   \<and> (f_paymentMethod formData = cod \<longrightarrow> \<not> falsy (f_validIdUrl formData))"
  by (auto simp add: validate_def)

subsection \<open>C10: the initial status and the validation\<close>

text \<open>
  Claim C10. The validation accepts a form only if all required fields are present, the
  phone is an 11-digit number starting with 09, for GCash the GCash number is present and
  is such a number too, and for cash on delivery the URL of an uploaded valid ID is
  present. Every order created at checkout starts with \<^verbatim>\<open>status = 'pending'\<close> and a
  \<^verbatim>\<open>statusHistory\<close> of exactly one entry, whose status is \<^verbatim>\<open>pending\<close> and whose
  \<^verbatim>\<open>updatedBy\<close> is \<^verbatim>\<open>system\<close>. A form that the validation rejects writes nothing.
\<close>

theorem checkout_order_pending_and_validated:
  "(validate formData = [] \<longrightarrow>
        f_firstName formData \<noteq> [] \<and> f_lastName formData \<noteq> [] \<and> f_email formData \<noteq> []
      \<and> f_phone formData \<noteq> [] \<and> f_address formData \<noteq> [] \<and> f_city formData \<noteq> []
      \<and> f_zipCode formData \<noteq> []
      \<and> length (f_phone formData) = 11 \<and> take 2 (f_phone formData) = ''09''
      \<and> list_all is_digit (f_phone formData)
      \<and> (f_paymentMethod formData = gcash \<longrightarrow>
            (\<exists>g. f_gcashNumber formData = Some g \<and> length g = 11 \<and> take 2 g = ''09''
                 \<and> list_all is_digit g))
      \<and> (f_paymentMethod formData = cod \<longrightarrow>
            (\<exists>url. f_validIdUrl formData = Some url \<and> url \<noteq> [])))
   \<and> (validate formData = [] \<and> ce_orderReply env = Some orderId \<longrightarrow>
        map_option o_status (orders (snd (handleSubmit env formData (p, fs))) orderId) = Some ''pending''
      \<and> map_option o_statusHistory (orders (snd (handleSubmit env formData (p, fs))) orderId) =
          Some (Some [\<lparr>h_status = ''pending'', h_timestamp = ce_historyNow env,
                       h_updatedBy = Some ''system''\<rparr>]))
   \<and> (validate formData \<noteq> [] \<longrightarrow> snd (handleSubmit env formData (p, fs)) = fs)"
proof -
  have v: "f_firstName formData \<noteq> [] \<and> f_lastName formData \<noteq> [] \<and> f_email formData \<noteq> []
      \<and> f_phone formData \<noteq> [] \<and> f_address formData \<noteq> [] \<and> f_city formData \<noteq> []
      \<and> f_zipCode formData \<noteq> []
      \<and> length (f_phone formData) = 11 \<and> take 2 (f_phone formData) = ''09''
      \<and> list_all is_digit (f_phone formData)
      \<and> (f_paymentMethod formData = gcash \<longrightarrow>
            (\<exists>g. f_gcashNumber formData = Some g \<and> length g = 11 \<and> take 2 g = ''09''
                 \<and> list_all is_digit g))
      \<and> (f_paymentMethod formData = cod \<longrightarrow>
            (\<exists>url. f_validIdUrl formData = Some url \<and> url \<noteq> []))"
    if "validate formData = []"
  proof -
    from that have e: "f_firstName formData \<noteq> []" "f_lastName formData \<noteq> []"
        "f_email formData \<noteq> []" "f_phone formData \<noteq> []" "f_address formData \<noteq> []"
        "f_city formData \<noteq> []" "f_zipCode formData \<noteq> []" "validatePhone (f_phone formData)"
      and g: "f_paymentMethod formData = gcash \<longrightarrow>
                \<not> falsy (f_gcashNumber formData) \<and> validateGCash (the (f_gcashNumber formData))"
      and c: "f_paymentMethod formData = cod \<longrightarrow> \<not> falsy (f_validIdUrl formData)"
      by (simp_all add: validate_empty_iff)
    have g': "\<exists>g. f_gcashNumber formData = Some g \<and> length g = 11 \<and> take 2 g = ''09''
                 \<and> list_all is_digit g" if "f_paymentMethod formData = gcash"
    proof -
      from g that obtain x where x: "f_gcashNumber formData = Some x" "validatePhone x"
        by (auto simp add: falsy_def validateGCash_validatePhone)
      then show ?thesis using validatePhone_digits [of x] by simp
    qed
    have c': "\<exists>url. f_validIdUrl formData = Some url \<and> url \<noteq> []"
      if "f_paymentMethod formData = cod"
      using c that by (auto simp add: falsy_def)
    show ?thesis using e(1-7) validatePhone_digits [OF e(8)] g' c' by blast
  qed
  have s: "map_option o_status (orders (snd (handleSubmit env formData (p, fs))) orderId) = Some ''pending''
      \<and> map_option o_statusHistory (orders (snd (handleSubmit env formData (p, fs))) orderId) =
          Some (Some [\<lparr>h_status = ''pending'', h_timestamp = ce_historyNow env,
                       h_updatedBy = Some ''system''\<rparr>])"
    if "validate formData = []" "ce_orderReply env = Some orderId"
    using handleSubmit_order_stored [OF that, of p fs]
    by (simp add: createNewOrderNotification_def addDoc_notifications_def logged_def
                  orderData_of_def Let_def split: option.splits)
  have i: "snd (handleSubmit env formData (p, fs)) = fs" if "validate formData \<noteq> []"
    using handleSubmit_invalid [OF that, of env p fs] by simp
  show ?thesis using v s i by blast
qed

text \<open>
  The example form is accepted and creates a pending order; the same form with cash on
  delivery and no uploaded ID is rejected and writes nothing.
\<close>

theorem checkout_order_pending_and_validated_witness:
  "validate demo_checkout_form = []
   \<and> ce_orderReply (demo_checkout_env None) = Some ''o1''
   \<and> f_paymentMethod demo_checkout_form = gcash
   \<and> length (f_phone demo_checkout_form) = 11
   \<and> map_option o_status
        (orders (snd (handleSubmit (demo_checkout_env None) demo_checkout_form
                        (demo_checkout_page, empty_store))) ''o1'') = Some ''pending''
   \<and> map_option o_statusHistory
        (orders (snd (handleSubmit (demo_checkout_env None) demo_checkout_form
                        (demo_checkout_page, empty_store))) ''o1'') =
        Some (Some [\<lparr>h_status = ''pending'', h_timestamp = 1000, h_updatedBy = Some ''system''\<rparr>])
   \<and> validate (demo_checkout_form\<lparr>f_paymentMethod := cod\<rparr>) \<noteq> []
   \<and> snd (handleSubmit (demo_checkout_env None) (demo_checkout_form\<lparr>f_paymentMethod := cod\<rparr>)
            (demo_checkout_page, empty_store)) = empty_store"
proof -
  have a: "ce_orderReply (demo_checkout_env None) = Some ''o1''"
    by (simp add: demo_checkout_env_def)
  have b: "f_paymentMethod demo_checkout_form = gcash" by (simp add: demo_checkout_form_def)
  have c: "ce_historyNow (demo_checkout_env None) = 1000" by (simp add: demo_checkout_env_def)
  have d: "validate (demo_checkout_form\<lparr>f_paymentMethod := cod\<rparr>) \<noteq> []"
    by (simp add: validate_def demo_checkout_form_def falsy_def)
  show ?thesis
    using checkout_order_pending_and_validated
            [of demo_checkout_form "demo_checkout_env None" "''o1''" demo_checkout_page empty_store]
          checkout_order_pending_and_validated
            [of "demo_checkout_form\<lparr>f_paymentMethod := cod\<rparr>" "demo_checkout_env None" "''o1''"
                demo_checkout_page empty_store]
          demo_checkout_valid a b c d
    by simp
qed

section \<open>Properties of the verification on the stores that the application produces\<close>

text \<open>
  Each operation keeps the user documents it finds, and writes a token only after the
  document of its user.
\<close>

lemma handleRegister_users_kept:
  assumes "users fs k \<noteq> None"
  shows "users (snd (handleRegister env formData (p, fs))) k \<noteq> None"
proof (cases "rg_createUser env")
  case (Inl err)
  then show ?thesis using assms by (simp add: handleRegister_def Let_def)
next
  case (Inr uid)
  show ?thesis
  proof (cases "rg_updateProfile env")
    case (Some err)
    then show ?thesis using assms Inr by (simp add: handleRegister_def Let_def)
  next
    case None
    show ?thesis
    proof (cases "rg_setUser env")
      case (Some err)
      then show ?thesis
        using assms Inr None by (simp add: handleRegister_def Let_def setDoc_users_def logged_def)
    next
      case su: None
      show ?thesis
      proof (cases "rg_setToken env")
        case (Some err)
        then show ?thesis
          using assms Inr None su
          by (simp add: handleRegister_def Let_def setDoc_users_def
                setDoc_verificationTokens_def logged_def)
      next
        case st: None
        show ?thesis
        proof (cases "rg_emailSend env")
          case (Some err)
          then show ?thesis
            using assms Inr None su st
            by (simp add: handleRegister_def Let_def setDoc_users_def
                  setDoc_verificationTokens_def logged_def)
        next
          case es: None
          then show ?thesis
            using assms Inr None su st
            by (cases "rg_signOut env")
               (simp_all add: handleRegister_def Let_def setDoc_users_def
                  setDoc_verificationTokens_def logged_def)
        qed
      qed
    qed
  qed
qed

lemma handleRegister_keeps_invariant:
  assumes "tokens_have_users fs"
  shows "tokens_have_users (snd (handleRegister env formData (p, fs)))"
  unfolding tokens_have_users_def
proof (intro allI impI)
  fix k td
  assume t: "verificationTokens (snd (handleRegister env formData (p, fs))) k = Some td"
  show "users (snd (handleRegister env formData (p, fs))) (t_userId td) \<noteq> None"
  proof (cases "verificationTokens (snd (handleRegister env formData (p, fs))) k =
                  verificationTokens fs k")
    case True
    then have "users fs (t_userId td) \<noteq> None"
      using assms t by (simp add: tokens_have_users_def)
    then show ?thesis by (rule handleRegister_users_kept)
  next
    case False
    then show ?thesis
      using handleRegister_token_has_user [of env formData p fs k] t by auto
  qed
qed

lemma verifyEmail_users_kept:
  assumes "users fs k \<noteq> None"
  shows "users (snd (verifyEmail env token (p, fs))) k \<noteq> None"
  using assms
  by (simp add: verify_defs Let_def split: option.splits bool.splits)

lemma verifyEmail_tokens_subset:
  assumes "verificationTokens (snd (verifyEmail env token (p, fs))) k = Some td"
  shows "verificationTokens fs k = Some td"
  using assms
  by (simp add: verify_defs Let_def split: option.splits bool.splits if_splits)

lemma verifyEmail_keeps_invariant:
  assumes "tokens_have_users fs"
  shows "tokens_have_users (snd (verifyEmail env token (p, fs)))"
  unfolding tokens_have_users_def
proof (intro allI impI)
  fix k td
  assume "verificationTokens (snd (verifyEmail env token (p, fs))) k = Some td"
  then have "verificationTokens fs k = Some td" by (rule verifyEmail_tokens_subset)
  then have "users fs (t_userId td) \<noteq> None"
    using assms by (simp add: tokens_have_users_def)
  then show "users (snd (verifyEmail env token (p, fs))) (t_userId td) \<noteq> None"
    by (rule verifyEmail_users_kept)
qed

lemma handleSubmit_users_tokens:
  "users (snd (handleSubmit env formData (p, fs))) = users fs"
  "verificationTokens (snd (handleSubmit env formData (p, fs))) = verificationTokens fs"
  by (simp_all add: handleSubmit_def createNewOrderNotification_def addDoc_orders_def
        addDoc_notifications_def logged_def Let_def split: option.splits)

lemma updateOrderStatus_users_tokens:
  "users (snd (updateOrderStatus env orderId newStatus (ui, fs))) = users fs"
  "verificationTokens (snd (updateOrderStatus env orderId newStatus (ui, fs))) = verificationTokens fs"
  by (simp_all add: updateOrderStatus_def updateDoc_orders_def logged_def Let_def
        split: option.splits)

text \<open>Every store that the application produces satisfies the invariant.\<close>

lemma reachable_tokens_have_users:
  assumes "reachable fs"
  shows "tokens_have_users fs"
  using assms
proof (induction rule: reachable.induct)
  case initial
  show ?case by (simp add: tokens_have_users_def empty_store_def)
next
  case (registered fs env formData p)
  then show ?case by (simp add: handleRegister_keeps_invariant)
next
  case (verified fs env token p)
  then show ?case by (simp add: verifyEmail_keeps_invariant)
next
  case (ordered fs env formData p)
  then show ?case by (simp add: tokens_have_users_def handleSubmit_users_tokens)
next
  case (status_updated fs env orderId newStatus ui)
  then show ?case by (simp add: tokens_have_users_def updateOrderStatus_users_tokens)
next
  case (user_written fs k d)
  then show ?case by (simp add: tokens_have_users_def)
next
  case (orders_written fs os ns rs)
  then show ?case by (simp add: tokens_have_users_def)
qed

subsection \<open>C5: a valid token\<close>

text \<open>
  Claim C5. For every verification request on a store that the application produces,
  whose token document exists and whose \<^verbatim>\<open>expiresAt\<close> is not before the clock reading
  of the check, the flow succeeds when the backend fulfils its calls: the user document
  that the token's \<^verbatim>\<open>userId\<close> names has \<^verbatim>\<open>emailVerified\<close> set to true, the token
  document is deleted, and the page reports success and schedules the redirect to the
  login page.
\<close>

theorem verifyEmail_valid_token_verifies_user:
  assumes "reachable fs"
      and "tok \<noteq> []"
      and "verificationTokens fs tok = Some td"
      and "\<not> t_expiresAt td < ve_now env"
      and "ve_getReply env" and "ve_updateReply env" and "ve_deleteReply env"
  shows "map_option u_emailVerified (users (snd (verifyEmail env (Some tok) (p, fs))) (t_userId td)) =
           Some (Some True)
       \<and> verificationTokens (snd (verifyEmail env (Some tok) (p, fs))) tok = None
       \<and> v_status (fst (verifyEmail env (Some tok) (p, fs))) = success
       \<and> v_redirect (fst (verifyEmail env (Some tok) (p, fs))) = Some ''/login''"
proof -
  have "users fs (t_userId td) \<noteq> None"
    using reachable_tokens_have_users [OF assms(1)] assms(3) by (simp add: tokens_have_users_def)
  then obtain u where u: "users fs (t_userId td) = Some u" by auto
  show ?thesis
    using assms(2-7) u by (simp add: verifyEmail_valid)
qed

text \<open>The store after the example registration in Philippine time.\<close>

lemma demo_registered_store:
  "snd (handleRegister (demo_reg_env zone_manila) demo_form (demo_reg_page, empty_store)) =
     empty_store\<lparr>users := [''u1'' \<mapsto>
                  \<lparr>u_id = ''u1'', u_email = ''ana@x.ph'', u_name = ''ana'',
                   u_phone = ''+639171234567'', u_role = role_user,
                   u_emailVerified = Some False, u_createdAt = 1772902800000,
                   u_verifiedAt = None\<rparr>],
               verificationTokens := [''u1_1772902800000_k3x9'' \<mapsto>
                  \<lparr>t_userId = ''u1'', t_email = ''ana@x.ph'',
                   t_createdAt = 1772902800000,
                   t_expiresAt = 1772989200000\<rparr>],
               requests := [SetDoc ''users'' ''u1'',
                            SetDoc ''verificationTokens'' ''u1_1772902800000_k3x9'']\<rparr>"
proof -
  have e: "make_expiresAt (demo_reg_env zone_manila) = 1772989200000"
    using make_expiresAt_fixed_offset [of "demo_reg_env zone_manila" "8 * msPerHour"]
    by (simp add: demo_reg_env_def zone_manila_def msPerHour_def)
  have "snd (handleRegister (demo_reg_env zone_manila) demo_form (demo_reg_page, empty_store)) =
          empty_store\<lparr>users := (users empty_store)(''u1'' \<mapsto>
                  \<lparr>u_id = ''u1'', u_email = rf_email demo_form, u_name = rf_username demo_form,
                   u_phone = rf_phone demo_form, u_role = role_user,
                   u_emailVerified = Some False,
                   u_createdAt = rg_userCreatedAt (demo_reg_env zone_manila),
                   u_verifiedAt = None\<rparr>),
               verificationTokens := (verificationTokens empty_store)
                 (make_token (demo_reg_env zone_manila) ''u1'' \<mapsto>
                  \<lparr>t_userId = ''u1'', t_email = rf_email demo_form,
                   t_createdAt = rg_tokenCreatedAt (demo_reg_env zone_manila),
                   t_expiresAt = make_expiresAt (demo_reg_env zone_manila)\<rparr>),
               requests := requests empty_store @
                  [SetDoc ''users'' ''u1'',
                   SetDoc ''verificationTokens'' (make_token (demo_reg_env zone_manila) ''u1'')]\<rparr>"
    by (rule handleRegister_fulfilled)
       (simp_all add: demo_form_def demo_reg_env_def startsWith_def)
  then show ?thesis
    by (simp add: demo_make_token e) (simp add: demo_reg_env_def demo_form_def empty_store_def)
qed

text \<open>
  The hypotheses hold for a verification of the example registration at the very
  instant of expiry, which still counts as valid.
\<close>

theorem verifyEmail_valid_witness:
  "reachable (snd (handleRegister (demo_reg_env zone_manila) demo_form (demo_reg_page, empty_store)))
   \<and> map_option t_expiresAt
        (verificationTokens
           (snd (handleRegister (demo_reg_env zone_manila) demo_form (demo_reg_page, empty_store)))
           ''u1_1772902800000_k3x9'') = Some 1772989200000
   \<and> ve_now (demo_verify_env 1772989200000) = 1772989200000
   \<and> map_option u_emailVerified
        (users (snd (verifyEmail (demo_verify_env 1772989200000) (Some ''u1_1772902800000_k3x9'')
                       (demo_page,
                        snd (handleRegister (demo_reg_env zone_manila) demo_form
                               (demo_reg_page, empty_store)))))
           ''u1'') = Some (Some True)
   \<and> verificationTokens
        (snd (verifyEmail (demo_verify_env 1772989200000) (Some ''u1_1772902800000_k3x9'')
                (demo_page,
                 snd (handleRegister (demo_reg_env zone_manila) demo_form
                        (demo_reg_page, empty_store)))))
        ''u1_1772902800000_k3x9'' = None"
proof -
  let ?fs = "snd (handleRegister (demo_reg_env zone_manila) demo_form (demo_reg_page, empty_store))"
  let ?td = "\<lparr>t_userId = ''u1'', t_email = ''ana@x.ph'', t_createdAt = 1772902800000,
              t_expiresAt = 1772989200000\<rparr>"
  have r: "reachable ?fs"
    by (rule reachable.registered) (rule reachable.initial)
  have a: "''u1_1772902800000_k3x9'' \<noteq> []" by simp
  have b: "verificationTokens ?fs ''u1_1772902800000_k3x9'' = Some ?td"
    by (simp add: demo_registered_store)
  have c: "\<not> t_expiresAt ?td < ve_now (demo_verify_env 1772989200000)"
    by (simp add: demo_verify_env_def)
  have e: "ve_getReply (demo_verify_env 1772989200000)" by (simp add: demo_verify_env_def)
  have f: "ve_updateReply (demo_verify_env 1772989200000)" by (simp add: demo_verify_env_def)
  have g: "ve_deleteReply (demo_verify_env 1772989200000)" by (simp add: demo_verify_env_def)
  have h: "ve_now (demo_verify_env 1772989200000) = 1772989200000"
    by (simp add: demo_verify_env_def)
  show ?thesis
    using verifyEmail_valid_token_verifies_user [OF r a b c e f g, of demo_page] r b h
    by simp
qed

section \<open>Properties of the analytics view\<close>










lemmas analytics_demo_defs =
  demo_orders_def demo_calendar_def int_ops_def demo_analytics_page_def

lemmas analytics_defs =
  fetchAnalytics_def orders_fetched_def fetch_completed_def fetched_stats_def
  fetched_totalRevenue_def user_event_def setFilterMonth_def setFilterYear_def
  run_effect_def update_stats_def filtered_orders_def filter_callback_def order_date_def
  Let_def



lemma demo_orders_arrived:
  "ap_stats (fetchAnalytics int_ops demo_calendar (Some demo_orders) [] None demo_analytics_page) =
     \<lparr>st_totalRevenue = Some 849, st_totalOrders = 6, st_totalCustomers = 0,
      st_totalProducts = 0\<rparr>"
  by (simp add: analytics_defs analytics_demo_defs)

lemma demo_february_selected:
  "ap_stats (fetchAnalytics int_ops demo_calendar (Some demo_orders) [SelectMonth (Some 1)] None
               demo_analytics_page) =
     \<lparr>st_totalRevenue = Some 530, st_totalOrders = 3, st_totalCustomers = 0,
      st_totalProducts = 0\<rparr>"
  by (simp add: analytics_defs analytics_demo_defs)


lemma demo_recent_first:
  "map a_id (recent_first demo_orders) = [''o2'', ''o4'', ''o1'', ''o3'', ''o5'', ''o6'']"
  by (simp add: recent_first_def order_time_def order_date_def demo_orders_def)

lemma sum_in_order_exact:
  fixes xs :: "real list"
  shows "sum_in_order \<lparr>js_plus = (+), js_zero = 0\<rparr> xs = sum_list xs"
proof -
  have "sum_from \<lparr>js_plus = (+), js_zero = 0\<rparr> a xs = a + sum_list xs" for a :: real
    by (induction xs arbitrary: a) (simp_all add: add.assoc)
  then show ?thesis by (simp add: sum_in_order_def)
qed

subsection \<open>C8: the aggregation of the analytics view\<close>




end
